theory Spec2Isabelle
  imports Main
begin

section \<open>Effects of a command\<close>

text \<open>
  Both binaries are thin drivers over external collaborators (Hyperswarm, Corestore,
  the autobase-discovery clients and service, the RPC router).  A command is modelled
  as a function from its flags, its arguments and the answers of the collaborators to
  the sequence of effects it performs, in program order, and the way it ends.  A callback
  that the command hands to a collaborator (a connection handler, a shutdown handler) runs
  outside this sequence; the sequence records its registration.

  A key is a Buffer; a string is the sequence of code units that JavaScript counts
  with \<open>.length\<close>.
\<close>

type_synonym key = string

text \<open>The settlement of a promise the command awaits; a rejection carries the
  message of its Error.\<close>

datatype 'a awaited = Resolved 'a | Rejected string | Pending

text \<open>How the command function ends: it returns, an exception escapes it (with the
  Error's message), it calls \<open>process.exit\<close>, or it waits forever on a promise.\<close>

datatype outcome = Returned | Threw string | Exited nat | Hangs

text \<open>The value handed to \<open>client.list\<close> as \<open>limit\<close>: the number 10 or the flag's string.\<close>

datatype limit = LimitNum nat | LimitStr string

text \<open>A Number as \<open>parseInt\<close> returns it: an integer or \<open>NaN\<close>.\<close>

datatype jsnum = Num int | NaN

text \<open>The options of the server's collaborators.\<close>

record bootstrap_node =
  port :: jsnum
  host :: string

record rate_limit =
  capacity :: jsnum
  intervalMs :: jsnum

record concurrent_limit =
  concurrent_capacity :: jsnum

record middleware =
  rateLimit :: rate_limit
  concurrentLimit :: concurrent_limit

record instrumentation_opts =
  opt_scraperPublicKey :: key
  opt_prometheusAlias :: string
  opt_scraperSecret :: key
  opt_prometheusServiceName :: string
  opt_version :: string

record join_opts =
  client :: bool
  server :: bool

datatype effect =
    ConsoleLog string
  | ConsoleInfo string
  | ConsoleError string
  | LoggerInfo string
  | LoggerWarn string
  | NewHyperswarm
  | NewHyperswarmWith key "bootstrap_node list option"
  | NewCorestore string
  | StoreReady
  | CreateKeyPair string
  | OnConnectionReplicate bool
  | OnConnectionLog
  | NewLookupClient key string
  | ClientReady
  | EnsureDbLoaded
  | ClientList string limit
  | ClientClose
  | SwarmDestroy
  | StoreClose
  | NewHyperDHT
  | NewDeleteClient key key
  | NewRegisterClient key key
  | Goodbye
  | DeleteService key
  | PutService key string
  | GoodbyeExit
  | NewInstrumentation instrumentation_opts
  | RegisterLogger
  | InstrumentationReady
  | NewRouter
  | RouterUse middleware
  | RegisterMetrics
  | NewAutodiscovery string key
  | OnRpcSession
  | ServiceReady
  | SwarmJoin key "join_opts option"

type_synonym run = "effect list \<times> outcome"

definition finish :: "outcome \<Rightarrow> run" where
  "finish out = ([], out)"

definition emit :: "effect \<Rightarrow> run \<Rightarrow> run" where
  "emit e r = (e # fst r, snd r)"

definition emits :: "effect list \<Rightarrow> run \<Rightarrow> run" where
  "emits es r = (es @ fst r, snd r)"

text \<open>A synchronous call that may throw: the exception escapes the command.\<close>

definition attempt :: "string + 'a \<Rightarrow> ('a \<Rightarrow> run) \<Rightarrow> run" where
  "attempt r k = (case r of Inl m \<Rightarrow> finish (Threw m) | Inr v \<Rightarrow> k v)"

text \<open>\<open>await call\<close>: the call is made; the command goes on when the promise resolves,
  the rejection escapes when it rejects, and nothing more happens when it never settles.\<close>

definition await :: "effect \<Rightarrow> 'a awaited \<Rightarrow> ('a \<Rightarrow> run) \<Rightarrow> run" where
  "await call p k =
     (case p of
        Resolved v \<Rightarrow> emit call (k v)
      | Rejected m \<Rightarrow> emit call (finish (Threw m))
      | Pending \<Rightarrow> emit call (finish Hangs))"

text \<open>\<open>try { await call } catch (e) { handler }\<close>; \<open>e.message\<close> is the rejection's message.\<close>

definition await_catch :: "effect \<Rightarrow> 'a awaited \<Rightarrow> (string \<Rightarrow> run) \<Rightarrow> ('a \<Rightarrow> run) \<Rightarrow> run" where
  "await_catch call p handler k =
     (case p of
        Resolved v \<Rightarrow> emit call (k v)
      | Rejected m \<Rightarrow> emit call (handler m)
      | Pending \<Rightarrow> emit call (finish Hangs))"

text \<open>The status with which the process ends, where the command decides it:
  \<open>process.exit(n)\<close> ends it with \<open>n\<close>; after a normal return nothing sets a status, and
  Node ends with its default 0 once the closed handles let the event loop drain.  An
  escaped exception and a hang are left open (\<open>None\<close>).\<close>

definition exit_code :: "outcome \<Rightarrow> nat option" where
  "exit_code out =
     (case out of Exited n \<Rightarrow> Some n | Returned \<Rightarrow> Some 0 | Threw m \<Rightarrow> None | Hangs \<Rightarrow> None)"

text \<open>A flag that takes a value is \<open>undefined\<close> (\<open>None\<close>) or a string.  JavaScript's
  truthiness: \<open>undefined\<close> and the empty string are falsy.\<close>

definition truthy :: "string option \<Rightarrow> bool" where
  "truthy v = (case v of None \<Rightarrow> False | Some s \<Rightarrow> s \<noteq> [])"

text \<open>Decimal rendering of a non-negative integer in a template literal; \<open>digit\<close> is only
  applied below 10.\<close>

definition digit :: "nat \<Rightarrow> char" where
  "digit d = ''0123456789'' ! d"

function show_nat :: "nat \<Rightarrow> string" where
  "show_nat n = (if n < 10 then [digit n] else show_nat (n div 10) @ [digit (n mod 10)])"
  by pat_completeness auto
termination
  by (relation "measure id") auto

declare show_nat.simps [simp del]

section \<open>client-bin.js\<close>

text \<open>hypercore-id-encoding: \<open>decode\<close> takes \<open>undefined\<close> (\<open>None\<close>) or a string and throws
  on what is no key, \<open>normalize\<close> renders a key.\<close>

record idenc =
  IdEnc_decode :: "string option \<Rightarrow> string + key"
  IdEnc_normalize :: "key \<Rightarrow> string"

subsection \<open>list\<close>

text \<open>What iterating the stream of \<open>client.list\<close> gives: the public keys of the entries
  it yields, and how it stops.\<close>

datatype stream_end = EndOfStream | StreamError string | StreamStalls

record listing =
  entries :: "key list"
  ending :: stream_end

record lookup_env = idenc +
  client_ready :: "unit awaited"
  ensureDbLoaded :: "unit awaited"
  core_length :: nat
  client_list :: "string \<Rightarrow> limit \<Rightarrow> listing awaited"
  client_close :: "unit awaited"
  swarm_destroy :: "unit awaited"
  store_close :: "unit awaited"

text \<open>The \<open>for await\<close> loop over the entries, on the lines printed so far and \<open>foundOne\<close>:
  each entry prints one line and sets \<open>foundOne\<close>.\<close>

fun for_await :: "(key \<Rightarrow> string) \<Rightarrow> key list \<Rightarrow> effect list \<times> bool \<Rightarrow> effect list \<times> bool" where
  "for_await norm [] st = st"
| "for_await norm (publicKey # rest) (out, foundOne) =
     for_await norm rest (out @ [ConsoleInfo (''  - '' @ norm publicKey)], True)"

text \<open>Lines 50 to 62 of \<open>list\<close>: what follows the loading of the database.\<close>

definition list_instances :: "lookup_env \<Rightarrow> string \<Rightarrow> limit \<Rightarrow> run" where
  "list_instances env service limit =
     emit (ConsoleLog (''Autobase Discovery database version: '' @ show_nat (core_length env))) (
     emit (ConsoleLog (''Available instances for service '' @ [CHR 0x27] @ service @ [CHR 0x27] @ '':'')) (
     await (ClientList service limit) (client_list env service limit) (\<lambda>stream.
     let (out, foundOne) = for_await (IdEnc_normalize env) (entries stream) ([], False) in
     emits out (
     case ending stream of
       StreamError m \<Rightarrow> finish (Threw m)
     | StreamStalls \<Rightarrow> finish Hangs
     | EndOfStream \<Rightarrow>
     emits (if \<not> foundOne then [ConsoleInfo ''None (did not find any instances)''] else []) (
     await ClientClose (client_close env) (\<lambda>_.
     await SwarmDestroy (swarm_destroy env) (\<lambda>_.
     await StoreClose (store_close env) (\<lambda>_.
     finish Returned))))))))"

record list_flags =
  storage :: "string option"
  limit :: "string option"
  debug :: bool

record list_args =
  dbKey :: string
  service :: string

text \<open>\<open>flags.storage || 'autodiscovery-client'\<close>\<close>

definition storage_of :: "string option \<Rightarrow> string" where
  "storage_of v = (case v of Some s \<Rightarrow> if truthy v then s else ''autodiscovery-client''
                   | None \<Rightarrow> ''autodiscovery-client'')"

text \<open>\<open>flags.limit || 10\<close>\<close>

definition limit_of :: "string option \<Rightarrow> limit" where
  "limit_of v = (case v of Some s \<Rightarrow> if truthy v then LimitStr s else LimitNum 10
                 | None \<Rightarrow> LimitNum 10)"

definition lookup :: "lookup_env \<Rightarrow> list_flags \<Rightarrow> list_args \<Rightarrow> run" where
  "lookup env flags args =
     (let storage = storage_of (storage flags);
          debug = debug flags;
          limit = limit_of (limit flags)
      in
      attempt (IdEnc_decode env (Some (dbKey args))) (\<lambda>dbKey.
      let service = service args in
      emit NewHyperswarm (
      emit (NewCorestore storage) (
      emit (OnConnectionReplicate debug) (
      emit (NewLookupClient dbKey ''autodiscovery-lookup'') (
      await ClientReady (client_ready env) (\<lambda>_.
      emit (ConsoleLog ''Loading database...'') (
      await_catch EnsureDbLoaded (ensureDbLoaded env)
        (\<lambda>message. emit (ConsoleError message) (finish (Exited 1)))
        (\<lambda>_. list_instances env service limit)))))))))"

subsection \<open>delete and register\<close>

record delete_args =
  del_rpcKey :: string
  del_accessSeed :: string
  del_publicKey :: string

record register_args =
  reg_rpcKey :: string
  reg_accessSeed :: string
  reg_serviceName :: string
  reg_publicKey :: string

text \<open>The collaborators of the mutation commands: \<open>keyPair_publicKey seed\<close> is
  \<open>client.keyPair.publicKey\<close> of a client made with that seed, \<open>rpc_ready\<close> the settlement
  of \<open>client.ready()\<close>, and \<open>rpc_request seed\<close> the settlement of the single request
  (\<open>deleteService\<close>, \<open>putService\<close>) of a client made with that seed.\<close>

record rpc_env = idenc +
  keyPair_publicKey :: "key \<Rightarrow> key"
  rpc_ready :: "unit awaited"
  rpc_request :: "key \<Rightarrow> unit awaited"

text \<open>\<open>Goodbye\<close> is the registration of the shutdown handler with graceful-goodbye; the
  handler runs on a signal or after \<open>goodbye.exit()\<close>, outside the command's own sequence.\<close>

definition deleteCmd :: "rpc_env \<Rightarrow> delete_args \<Rightarrow> run" where
  "deleteCmd env args =
     attempt (IdEnc_decode env (Some (del_rpcKey args))) (\<lambda>rpcServerKey.
     attempt (IdEnc_decode env (Some (del_accessSeed args))) (\<lambda>accessSeed.
     attempt (IdEnc_decode env (Some (del_publicKey args))) (\<lambda>publicKey.
     emit NewHyperDHT (
     emit (NewDeleteClient rpcServerKey accessSeed) (
     emit Goodbye (
     emit (ConsoleInfo ''Opening connection... (press ctrl-c to cancel)'') (
     await ClientReady (rpc_ready env) (\<lambda>_.
     emit (ConsoleLog (''Sending delete request to RPC server '' @ IdEnc_normalize env rpcServerKey
        @ '', using public key '' @ IdEnc_normalize env (keyPair_publicKey env accessSeed) @ ''...'')) (
     await (DeleteService publicKey) (rpc_request env accessSeed) (\<lambda>_.
     emit (ConsoleLog (''Successfully requested to delete service '' @ IdEnc_normalize env publicKey)) (
     emit GoodbyeExit (
     finish Returned))))))))))))"

definition registerCmd :: "rpc_env \<Rightarrow> register_args \<Rightarrow> run" where
  "registerCmd env args =
     attempt (IdEnc_decode env (Some (reg_rpcKey args))) (\<lambda>rpcServerKey.
     attempt (IdEnc_decode env (Some (reg_accessSeed args))) (\<lambda>accessSeed.
     attempt (IdEnc_decode env (Some (reg_publicKey args))) (\<lambda>publicKey.
     let serviceName = reg_serviceName args in
     emit NewHyperDHT (
     emit (NewRegisterClient rpcServerKey accessSeed) (
     emit Goodbye (
     emit (ConsoleInfo ''Opening connection... (press ctrl-c to cancel)'') (
     await ClientReady (rpc_ready env) (\<lambda>_.
     emit (ConsoleInfo (''Sending register request to RPC server '' @ IdEnc_normalize env rpcServerKey
        @ '', using public key '' @ IdEnc_normalize env (keyPair_publicKey env accessSeed) @ ''...'')) (
     await (PutService publicKey serviceName) (rpc_request env accessSeed) (\<lambda>_.
     emit (ConsoleInfo (''Successfully requested to register service '' @ IdEnc_normalize env publicKey)) (
     emit GoodbyeExit (
     finish Returned))))))))))))"

section \<open>The server binary: run\<close>

text \<open>The collaborators of the server: \<open>parseInt\<close> (of \<open>undefined\<close> or a string),
  \<open>path.resolve\<close>, the version of package.json, the settlements of the promises \<open>run\<close>
  awaits (\<open>store_createKeyPair\<close> gives the public key of the key pair), and the
  properties it reads from the service once that is ready.\<close>

record run_env = idenc +
  parseInt :: "string option \<Rightarrow> jsnum"
  path_resolve :: "string \<Rightarrow> string"
  ownVersion :: string
  store_ready :: "unit awaited"
  store_createKeyPair :: "key awaited"
  instrumentation_ready :: "unit awaited"
  service_ready :: "unit awaited"
  base_discoveryKey :: key
  dbDiscoveryKey :: key
  view_core_length :: nat
  base_key :: key
  service_dbKey :: key
  serverPublicKey :: key

text \<open>\<open>String.prototype.split\<close> on a one-character separator.\<close>

fun split :: "char \<Rightarrow> string \<Rightarrow> string list" where
  "split c [] = [[]]"
| "split c (x # xs) =
     (if x = c then [] # split c xs
      else (case split c xs of [] \<Rightarrow> [[x]] | s # ss \<Rightarrow> (x # s) # ss))"

text \<open>A Number in a template literal.\<close>

definition show_jsnum :: "jsnum \<Rightarrow> string" where
  "show_jsnum n =
     (case n of NaN \<Rightarrow> ''NaN''
      | Num i \<Rightarrow> if i < 0 then ''-'' @ show_nat (nat (- i)) else show_nat (nat i))"

text \<open>\<open>const [host, port] = flags.bootstrap.split(':')\<close>;
  \<open>bootstrap = [{ port: parseInt(port), host }]\<close>.  A missing element of the
  destructuring is \<open>undefined\<close>.\<close>

definition bootstrap_of :: "run_env \<Rightarrow> string \<Rightarrow> bootstrap_node list" where
  "bootstrap_of env b =
     (case split (CHR '':'') b of
        [] \<Rightarrow> []
      | h # rest \<Rightarrow>
          [\<lparr>port = parseInt env (case rest of [] \<Rightarrow> None | p # _ \<Rightarrow> Some p), host = h\<rparr>])"

text \<open>\<open>flag ? parseInt(flag) : dflt\<close>\<close>

definition flag_or :: "run_env \<Rightarrow> string option \<Rightarrow> int \<Rightarrow> jsnum" where
  "flag_or env flag dflt = (if truthy flag then parseInt env flag else Num dflt)"

text \<open>Lines 120 to 125: the alias under which the instrumentation registers.
  \<open>normalized\<close> is \<open>IdEnc.normalize(swarm.keyPair.publicKey)\<close>; \<open>slice(0, 99)\<close> keeps the
  first 99 code units.\<close>

definition prometheusAlias_of :: "string option \<Rightarrow> string \<Rightarrow> string + string" where
  "prometheusAlias_of scraperAlias normalized =
     (case scraperAlias of
        Some alias \<Rightarrow>
          if truthy scraperAlias \<and> 99 < length alias
          then Inl ''The Prometheus alias must have length less than 100''
          else if \<not> truthy scraperAlias
          then Inr (take 99 (''autodiscovery-'' @ normalized))
          else Inr alias
      | None \<Rightarrow> Inr (take 99 (''autodiscovery-'' @ normalized)))"

text \<open>Lines 140 to 187 of \<open>run\<close>: router, service, the joins and the startup lines.
  \<open>instrumentation\<close> tells whether the instrumentation was set up (it is not \<open>null\<close>).\<close>

definition start_service :: "run_env \<Rightarrow> key \<Rightarrow> middleware \<Rightarrow> bool \<Rightarrow> run" where
  "start_service env rpcAllowedPublicKey config instrumentation =
     emit NewRouter (
     emit (RouterUse config) (
     emits (if instrumentation then [RegisterMetrics] else []) (
     emit (NewAutodiscovery ''autodiscovery'' rpcAllowedPublicKey) (
     emit OnRpcSession (
     emit Goodbye (
     (if instrumentation then await InstrumentationReady (instrumentation_ready env)
      else (\<lambda>k. k ())) (\<lambda>_.
     emit (LoggerInfo ''Starting autodiscovery service'') (
     await ServiceReady (service_ready env) (\<lambda>_.
     emit (SwarmJoin (base_discoveryKey env) None) (
     emit (SwarmJoin (dbDiscoveryKey env) (Some \<lparr>client = True, server = True\<rparr>)) (
     emit (LoggerInfo (''DB version: '' @ show_nat (view_core_length env))) (
     emit (LoggerInfo (''Autobase key: '' @ IdEnc_normalize env (base_key env))) (
     emit (LoggerInfo (''Name-service database key: '' @ IdEnc_normalize env (service_dbKey env))) (
     emit (LoggerInfo (''RPC server public key: '' @ IdEnc_normalize env (serverPublicKey env))) (
     emit (LoggerInfo (''Accepting RPC connections from public key ''
        @ IdEnc_normalize env rpcAllowedPublicKey)) (
     finish Returned))))))))))))))))"

record run_flags =
  run_storage :: "string option"
  scraperPublicKey :: "string option"
  scraperSecret :: "string option"
  scraperAlias :: "string option"
  bootstrap :: "string option"
  rateLimitCapacity :: "string option"
  rateLimitIntervalMs :: "string option"
  concurrentLimitCapacity :: "string option"

record run_args =
  rpcAllowedPublicKey :: string

text \<open>Lines 90 to 96 and 142 to 151: the limits, and the options of the middleware built
  from them.\<close>

definition run_config :: "run_env \<Rightarrow> run_flags \<Rightarrow> middleware" where
  "run_config env flags =
     (let rateLimitCapacity = flag_or env (rateLimitCapacity flags) 10;
          rateLimitIntervalMs = flag_or env (rateLimitIntervalMs flags) 100;
          concurrentLimitCapacity = flag_or env (concurrentLimitCapacity flags) 16
      in \<lparr>rateLimit = \<lparr>capacity = rateLimitCapacity, intervalMs = rateLimitIntervalMs\<rparr>,
          concurrentLimit = \<lparr>concurrent_capacity = concurrentLimitCapacity\<rparr>\<rparr>)"

text \<open>Lines 112 to 138: the instrumentation, set up when a scraper is given.  \<open>keyPair\<close> is
  the public key of the swarm's key pair; \<open>k\<close> is the rest of \<open>run\<close>, told whether
  \<open>instrumentation\<close> is set.\<close>

definition instrument :: "run_env \<Rightarrow> run_flags \<Rightarrow> key \<Rightarrow> (bool \<Rightarrow> run) \<Rightarrow> run" where
  "instrument env flags keyPair k =
     (if truthy (scraperPublicKey flags) then
        emit (LoggerInfo ''Setting up instrumentation'') (
        attempt (IdEnc_decode env (scraperPublicKey flags)) (\<lambda>scraperPublicKey.
        attempt (IdEnc_decode env (scraperSecret flags)) (\<lambda>scraperSecret.
        let prometheusServiceName = ''autodiscovery'' in
        attempt (prometheusAlias_of (scraperAlias flags) (IdEnc_normalize env keyPair))
          (\<lambda>prometheusAlias.
        emit (NewInstrumentation
               \<lparr>opt_scraperPublicKey = scraperPublicKey, opt_prometheusAlias = prometheusAlias,
                opt_scraperSecret = scraperSecret,
                opt_prometheusServiceName = prometheusServiceName,
                opt_version = ownVersion env\<rparr>) (
        emit RegisterLogger (
        k True))))))
      else k False)"

definition runCmd :: "run_env \<Rightarrow> run_flags \<Rightarrow> run_args \<Rightarrow> run" where
  "runCmd env flags args =
     (let storage = path_resolve env
            (case run_storage flags of
               Some s \<Rightarrow> if truthy (run_storage flags) then s else ''autodiscovery''
             | None \<Rightarrow> ''autodiscovery'')
      in
      attempt (IdEnc_decode env (Some (rpcAllowedPublicKey args))) (\<lambda>rpcAllowedPublicKey.
      let bootstrap =
            (case bootstrap flags of
               Some b \<Rightarrow> if truthy (bootstrap flags) then Some (bootstrap_of env b) else None
             | None \<Rightarrow> None)
      in
      emits (case bootstrap of
               Some (b # _) \<Rightarrow>
                 [LoggerWarn (''Using non-standard bootstrap: '' @ host b @ '':'' @ show_jsnum (port b))]
             | _ \<Rightarrow> []) (
      let config = run_config env flags in
      emit (LoggerInfo (''Using storage: '' @ storage)) (
      emit (NewCorestore storage) (
      await StoreReady (store_ready env) (\<lambda>_.
      await (CreateKeyPair ''public-key'') (store_createKeyPair env) (\<lambda>keyPair.
      emit (NewHyperswarmWith keyPair bootstrap) (
      emit OnConnectionLog (
      instrument env flags keyPair (start_service env rpcAllowedPublicKey config))))))))))"

section \<open>Observations on a run\<close>


text \<open>The effects of the set-up of \<open>run\<close> (lines 79 to 138): log lines, the store, the
  swarm and the instrumentation.\<close>

definition is_setup :: "effect \<Rightarrow> bool" where
  "is_setup e =
     (case e of
        LoggerInfo _ \<Rightarrow> True | LoggerWarn _ \<Rightarrow> True | NewCorestore _ \<Rightarrow> True
      | StoreReady \<Rightarrow> True | CreateKeyPair _ \<Rightarrow> True | NewHyperswarmWith _ _ \<Rightarrow> True
      | OnConnectionLog \<Rightarrow> True | NewInstrumentation _ \<Rightarrow> True | RegisterLogger \<Rightarrow> True
      | _ \<Rightarrow> False)"

text \<open>The construction of a mutation client: the session to the RPC server.\<close>

definition is_session :: "effect \<Rightarrow> bool" where
  "is_session e = (case e of NewDeleteClient _ _ \<Rightarrow> True | NewRegisterClient _ _ \<Rightarrow> True | _ \<Rightarrow> False)"

text \<open>A command sent over the session.\<close>

definition is_request :: "effect \<Rightarrow> bool" where
  "is_request e = (case e of DeleteService _ \<Rightarrow> True | PutService _ _ \<Rightarrow> True | _ \<Rightarrow> False)"

text \<open>What \<open>list\<close> does up to and with \<open>client.ready()\<close>, for the decoded key.\<close>

definition lookup_opening :: "list_flags \<Rightarrow> key \<Rightarrow> effect list" where
  "lookup_opening flags k =
     [NewHyperswarm, NewCorestore (storage_of (storage flags)), OnConnectionReplicate (debug flags),
      NewLookupClient k ''autodiscovery-lookup'', ClientReady]"

text \<open>Every step of \<open>list\<close> succeeds: the key decodes, each awaited promise resolves and
  the stream of entries ends.\<close>

definition lookup_succeeds :: "lookup_env \<Rightarrow> list_flags \<Rightarrow> list_args \<Rightarrow> bool" where
  "lookup_succeeds env flags args =
     ((case IdEnc_decode env (Some (dbKey args)) of Inr _ \<Rightarrow> True | Inl _ \<Rightarrow> False) \<and>
      client_ready env = Resolved () \<and>
      ensureDbLoaded env = Resolved () \<and>
      (case client_list env (service args) (limit_of (limit flags)) of
         Resolved stream \<Rightarrow> ending stream = EndOfStream
       | _ \<Rightarrow> False) \<and>
      client_close env = Resolved () \<and>
      swarm_destroy env = Resolved () \<and>
      store_close env = Resolved ())"

text \<open>Modelled from the spec: the request of autobase-discovery's mutation clients
  (\<open>autobase-discovery/client/delete\<close> and \<open>client/register\<close>, which are not among these
  sources).  A seed whose key pair is not the one the server allows never authenticates:
  the request stays pending and no error is produced; under the allowed key pair the request
  settles with the server's answer.\<close>

definition seeded_request :: "(key \<Rightarrow> key) \<Rightarrow> key \<Rightarrow> unit awaited \<Rightarrow> key \<Rightarrow> unit awaited" where
  "seeded_request publicKeyOf allowedPublicKey answer accessSeed =
     (if publicKeyOf accessSeed = allowedPublicKey then answer else Pending)"

text \<open>The stages of \<open>delete\<close> and \<open>register\<close> for decoded arguments: up to and with
  \<open>client.ready()\<close>, and the announcement with the request.\<close>

definition delete_opening :: "key \<Rightarrow> key \<Rightarrow> effect list" where
  "delete_opening k s =
     [NewHyperDHT, NewDeleteClient k s, Goodbye,
      ConsoleInfo ''Opening connection... (press ctrl-c to cancel)'', ClientReady]"

definition register_opening :: "key \<Rightarrow> key \<Rightarrow> effect list" where
  "register_opening k s =
     [NewHyperDHT, NewRegisterClient k s, Goodbye,
      ConsoleInfo ''Opening connection... (press ctrl-c to cancel)'', ClientReady]"

definition delete_sending :: "rpc_env \<Rightarrow> key \<Rightarrow> key \<Rightarrow> key \<Rightarrow> effect list" where
  "delete_sending env k s p =
     [ConsoleLog (''Sending delete request to RPC server '' @ IdEnc_normalize env k
        @ '', using public key '' @ IdEnc_normalize env (keyPair_publicKey env s) @ ''...''),
      DeleteService p]"

definition register_sending :: "rpc_env \<Rightarrow> key \<Rightarrow> key \<Rightarrow> key \<Rightarrow> string \<Rightarrow> effect list" where
  "register_sending env k s p name =
     [ConsoleInfo (''Sending register request to RPC server '' @ IdEnc_normalize env k
        @ '', using public key '' @ IdEnc_normalize env (keyPair_publicKey env s) @ ''...''),
      PutService p name]"

text \<open>What follows the single request, by its settlement.\<close>

definition after_request :: "unit awaited \<Rightarrow> effect list \<Rightarrow> run" where
  "after_request answer closing =
     (case answer of
        Resolved _ \<Rightarrow> (closing, Returned)
      | Rejected m \<Rightarrow> ([], Threw m)
      | Pending \<Rightarrow> ([], Hangs))"



text \<open>The last lines of a startup.\<close>

definition startup_lines :: "run_env \<Rightarrow> key \<Rightarrow> effect list" where
  "startup_lines env allowed =
     [LoggerInfo (''DB version: '' @ show_nat (view_core_length env)),
      LoggerInfo (''Autobase key: '' @ IdEnc_normalize env (base_key env)),
      LoggerInfo (''Name-service database key: '' @ IdEnc_normalize env (service_dbKey env)),
      LoggerInfo (''RPC server public key: '' @ IdEnc_normalize env (serverPublicKey env)),
      LoggerInfo (''Accepting RPC connections from public key '' @ IdEnc_normalize env allowed)]"

section \<open>Sample collaborators\<close>

text \<open>Concrete collaborators on which the commands are run below.  Their \<open>decode\<close> takes a
  string of 64 characters as the key it spells and throws on anything else.\<close>

definition sample_decode :: "string option \<Rightarrow> string + key" where
  "sample_decode v =
     (case v of
        Some s \<Rightarrow> if length s = 64 then Inr s else Inl ''Invalid Hypercore key''
      | None \<Rightarrow> Inl ''Invalid Hypercore key'')"

definition key_of :: "char \<Rightarrow> string" where
  "key_of c = replicate 64 c"

text \<open>\<open>parseInt\<close> with no radix, as ECMAScript defines it, on ASCII strings: leading white
  space is skipped, a sign is read, \<open>0x\<close> selects radix 16, and the longest run of digits
  is the value; \<open>NaN\<close> when there is no digit, as for \<open>undefined\<close>.  (Values beyond what a
  Number holds exactly are not rounded here.)\<close>

definition is_space :: "char \<Rightarrow> bool" where
  "is_space c = (c \<in> set [CHR '' '', CHR 0x09, CHR 0x0A, CHR 0x0B, CHR 0x0C, CHR 0x0D])"

definition digit_value :: "char \<Rightarrow> nat option" where
  "digit_value c =
     (let n = of_char c :: nat
      in if 48 \<le> n \<and> n \<le> 57 then Some (n - 48)
         else if 97 \<le> n \<and> n \<le> 122 then Some (n - 87)
         else if 65 \<le> n \<and> n \<le> 90 then Some (n - 55)
         else None)"

definition in_radix :: "nat \<Rightarrow> char \<Rightarrow> bool" where
  "in_radix r c = (case digit_value c of Some d \<Rightarrow> d < r | None \<Rightarrow> False)"

definition radix_value :: "nat \<Rightarrow> string \<Rightarrow> nat" where
  "radix_value r ds =
     foldl (\<lambda>acc c. acc * r + (case digit_value c of Some d \<Rightarrow> d | None \<Rightarrow> 0)) 0 ds"

definition sample_parseInt :: "string option \<Rightarrow> jsnum" where
  "sample_parseInt v =
     (case v of
        None \<Rightarrow> NaN
      | Some s \<Rightarrow>
          let t = dropWhile is_space s;
              negative = (case t of c # _ \<Rightarrow> c = CHR ''-'' | [] \<Rightarrow> False);
              u = (case t of c # cs \<Rightarrow> if c = CHR ''-'' \<or> c = CHR ''+'' then cs else t | [] \<Rightarrow> t);
              hex = (case u of a # b # _ \<Rightarrow> a = CHR ''0'' \<and> (b = CHR ''x'' \<or> b = CHR ''X'')
                     | _ \<Rightarrow> False);
              r = (if hex then 16 else 10);
              ds = takeWhile (in_radix r) (if hex then drop 2 u else u)
          in if ds = [] then NaN
             else Num ((if negative then - 1 else 1) * int (radix_value r ds)))"

definition sample_lookup_env :: "unit awaited \<Rightarrow> key list \<Rightarrow> lookup_env" where
  "sample_lookup_env loaded found =
     \<lparr>IdEnc_decode = sample_decode, IdEnc_normalize = (\<lambda>k. k),
      client_ready = Resolved (), ensureDbLoaded = loaded, core_length = 12,
      client_list = (\<lambda>name lim. Resolved \<lparr>entries = found, ending = EndOfStream\<rparr>),
      client_close = Resolved (), swarm_destroy = Resolved (), store_close = Resolved ()\<rparr>"

definition sample_list_args :: list_args where
  "sample_list_args = \<lparr>dbKey = key_of CHR ''d'', service = ''search''\<rparr>"

definition sample_list_flags :: "string option \<Rightarrow> list_flags" where
  "sample_list_flags lim = \<lparr>storage = None, limit = lim, debug = False\<rparr>"

text \<open>A server that allows the key pair of the seed \<open>ssss...\<close> only; the public key of a
  seed is taken to be the seed itself.\<close>

definition sample_rpc_env :: rpc_env where
  "sample_rpc_env =
     \<lparr>IdEnc_decode = sample_decode, IdEnc_normalize = (\<lambda>k. k),
      keyPair_publicKey = (\<lambda>seed. seed), rpc_ready = Resolved (),
      rpc_request = seeded_request (\<lambda>seed. seed) (key_of CHR ''s'') (Resolved ())\<rparr>"

definition sample_delete_args :: "char \<Rightarrow> delete_args" where
  "sample_delete_args seed =
     \<lparr>del_rpcKey = key_of CHR ''r'', del_accessSeed = key_of seed, del_publicKey = key_of CHR ''p''\<rparr>"

definition sample_register_args :: "char \<Rightarrow> register_args" where
  "sample_register_args seed =
     \<lparr>reg_rpcKey = key_of CHR ''r'', reg_accessSeed = key_of seed, reg_serviceName = ''search'',
      reg_publicKey = key_of CHR ''p''\<rparr>"

definition sample_run_env :: run_env where
  "sample_run_env =
     \<lparr>IdEnc_decode = sample_decode, IdEnc_normalize = (\<lambda>k. k),
      parseInt = sample_parseInt, path_resolve = (\<lambda>p. ''/srv/'' @ p), ownVersion = ''1.0.0'',
      store_ready = Resolved (), store_createKeyPair = Resolved (key_of CHR ''k''),
      instrumentation_ready = Resolved (), service_ready = Resolved (),
      base_discoveryKey = key_of CHR ''a'', dbDiscoveryKey = key_of CHR ''b'',
      view_core_length = 7, base_key = key_of CHR ''c'', service_dbKey = key_of CHR ''e'',
      serverPublicKey = key_of CHR ''f''\<rparr>"

definition sample_run_args :: run_args where
  "sample_run_args = \<lparr>rpcAllowedPublicKey = key_of CHR ''s''\<rparr>"

definition plain_run_flags :: run_flags where
  "plain_run_flags =
     \<lparr>run_storage = None, scraperPublicKey = None, scraperSecret = None, scraperAlias = None,
      bootstrap = None, rateLimitCapacity = None, rateLimitIntervalMs = None,
      concurrentLimitCapacity = None\<rparr>"

text \<open>Flags of \<open>run\<close> that set the three limits, and flags that configure a scraper.\<close>

definition limits_run_flags :: "string option \<Rightarrow> string option \<Rightarrow> string option \<Rightarrow> run_flags" where
  "limits_run_flags a b c =
     plain_run_flags\<lparr>rateLimitCapacity := a, rateLimitIntervalMs := b,
       concurrentLimitCapacity := c\<rparr>"

definition scraper_run_flags :: "string option \<Rightarrow> run_flags" where
  "scraper_run_flags name =
     plain_run_flags\<lparr>scraperPublicKey := Some (key_of CHR ''m''),
       scraperSecret := Some (key_of CHR ''n''), scraperAlias := name\<rparr>"

section \<open>Basic facts about runs\<close>

lemma fst_finish [simp]: "fst (finish out) = []"
  by (simp add: finish_def)

lemma snd_finish [simp]: "snd (finish out) = out"
  by (simp add: finish_def)

lemma fst_emit [simp]: "fst (emit e r) = e # fst r"
  by (simp add: emit_def)

lemma snd_emit [simp]: "snd (emit e r) = snd r"
  by (simp add: emit_def)

lemma fst_emits [simp]: "fst (emits es r) = es @ fst r"
  by (simp add: emits_def)

lemma snd_emits [simp]: "snd (emits es r) = snd r"
  by (simp add: emits_def)

lemma attempt_simps [simp]:
  "attempt (Inl m) k = finish (Threw m)"
  "attempt (Inr v) k = k v"
  by (simp_all add: attempt_def)

lemma await_simps [simp]:
  "await call (Resolved v) k = emit call (k v)"
  "await call (Rejected m) k = emit call (finish (Threw m))"
  "await call Pending k = emit call (finish Hangs)"
  by (simp_all add: await_def)

lemma await_catch_simps [simp]:
  "await_catch call (Resolved v) h k = emit call (k v)"
  "await_catch call (Rejected m) h k = emit call (h m)"
  "await_catch call Pending h k = emit call (finish Hangs)"
  by (simp_all add: await_catch_def)

text \<open>The loop prints one line per entry, in order, and \<open>foundOne\<close> ends true exactly when
  there was an entry (or it was true before).\<close>

lemma for_await_eq:
  "for_await norm ks (out, f) =
     (out @ map (\<lambda>k. ConsoleInfo (''  - '' @ norm k)) ks, f \<or> ks \<noteq> [])"
  by (induction ks arbitrary: out f) auto

text \<open>An element that does not occur in a prefix of a list lies behind that prefix.\<close>

lemma prefix_before:
  "pre @ x # post = xs @ ys \<Longrightarrow> x \<notin> set xs \<Longrightarrow> set xs \<subseteq> set pre"
proof (induction xs arbitrary: pre)
  case Nil
  then show ?case by simp
next
  case (Cons a xs)
  then show ?case by (cases pre) auto
qed

section \<open>The list command\<close>

subsection \<open>The run of \<open>list\<close>, stage by stage\<close>

lemma lookup_undecoded:
  "IdEnc_decode env (Some (dbKey args)) = Inl m \<Longrightarrow> lookup env flags args = ([], Threw m)"
  by (simp add: lookup_def finish_def)

lemma lookup_not_ready:
  "IdEnc_decode env (Some (dbKey args)) = Inr k \<Longrightarrow> client_ready env \<noteq> Resolved () \<Longrightarrow>
   fst (lookup env flags args) = lookup_opening flags k"
  by (cases "client_ready env") (simp_all add: lookup_def lookup_opening_def)

lemma lookup_not_loaded:
  "IdEnc_decode env (Some (dbKey args)) = Inr k \<Longrightarrow> client_ready env = Resolved () \<Longrightarrow>
   ensureDbLoaded env \<noteq> Resolved () \<Longrightarrow>
   fst (lookup env flags args) =
     lookup_opening flags k @ [ConsoleLog ''Loading database...'', EnsureDbLoaded]
       @ (case ensureDbLoaded env of Rejected m \<Rightarrow> [ConsoleError m] | _ \<Rightarrow> [])"
  by (cases "ensureDbLoaded env") (simp_all add: lookup_def lookup_opening_def)

lemma lookup_loaded:
  "IdEnc_decode env (Some (dbKey args)) = Inr k \<Longrightarrow> client_ready env = Resolved () \<Longrightarrow>
   ensureDbLoaded env = Resolved () \<Longrightarrow>
   lookup env flags args =
     emits (lookup_opening flags k @ [ConsoleLog ''Loading database...'', EnsureDbLoaded])
       (list_instances env (service args) (limit_of (limit flags)))"
  by (simp add: lookup_def lookup_opening_def Let_def emit_def emits_def)

lemma list_needs_loaded:
  "ClientList s l \<in> set (fst (lookup env flags args)) \<Longrightarrow> ensureDbLoaded env = Resolved ()"
proof (rule ccontr)
  assume mem: "ClientList s l \<in> set (fst (lookup env flags args))"
    and no: "ensureDbLoaded env \<noteq> Resolved ()"
  show False
  proof (cases "IdEnc_decode env (Some (dbKey args))")
    case (Inl m)
    with mem show False by (simp add: lookup_undecoded)
  next
    case (Inr k)
    show False
    proof (cases "client_ready env = Resolved ()")
      case False
      with mem Inr show False by (simp add: lookup_not_ready lookup_opening_def)
    next
      case True
      with mem Inr no show False
        by (simp add: lookup_not_loaded lookup_opening_def split: awaited.splits)
    qed
  qed
qed

subsection \<open>Loading comes before listing\<close>

text \<open>
  Claim C6.  In every execution of the list command, wherever a call of \<open>client.list\<close>
  stands in the sequence of effects, \<open>ensureDbLoaded\<close> was called before it and has
  resolved: list is never called on a replica that has not reported ready.
\<close>

theorem list_after_loaded:
  "fst (lookup env flags args) = pre @ ClientList s l # post \<Longrightarrow>
     ensureDbLoaded env = Resolved () \<and> EnsureDbLoaded \<in> set pre"
proof
  assume tr: "fst (lookup env flags args) = pre @ ClientList s l # post"
  then have mem: "ClientList s l \<in> set (fst (lookup env flags args))" by simp
  then show ok: "ensureDbLoaded env = Resolved ()" by (rule list_needs_loaded)
  show "EnsureDbLoaded \<in> set pre"
  proof (cases "IdEnc_decode env (Some (dbKey args))")
    case (Inl m)
    with mem show ?thesis by (simp add: lookup_undecoded)
  next
    case (Inr k)
    show ?thesis
    proof (cases "client_ready env = Resolved ()")
      case False
      with mem Inr show ?thesis by (simp add: lookup_not_ready lookup_opening_def)
    next
      case True
      let ?A = "lookup_opening flags k @ [ConsoleLog ''Loading database...'', EnsureDbLoaded]"
      from lookup_loaded [OF Inr True ok, of flags] tr
      have "pre @ ClientList s l # post
          = ?A @ fst (list_instances env (service args) (limit_of (limit flags)))"
        by simp
      moreover have "ClientList s l \<notin> set ?A" by (simp add: lookup_opening_def)
      ultimately have "set ?A \<subseteq> set pre" by (rule prefix_before)
      then show ?thesis by auto
    qed
  qed
qed

theorem list_after_loaded_witness:
  "fst (lookup (sample_lookup_env (Resolved ()) []) (sample_list_flags None) sample_list_args)
     = [NewHyperswarm, NewCorestore ''autodiscovery-client'', OnConnectionReplicate False,
        NewLookupClient (key_of CHR ''d'') ''autodiscovery-lookup'', ClientReady,
        ConsoleLog ''Loading database...'', EnsureDbLoaded,
        ConsoleLog ''Autobase Discovery database version: 12'',
        ConsoleLog (''Available instances for service '' @ [CHR 0x27] @ ''search'' @ [CHR 0x27] @ '':'')]
       @ ClientList ''search'' (LimitNum 10)
       # [ConsoleInfo ''None (did not find any instances)'', ClientClose, SwarmDestroy, StoreClose]
   \<and> ensureDbLoaded (sample_lookup_env (Resolved ()) []) = Resolved ()
   \<and> EnsureDbLoaded \<in> set
       [NewHyperswarm, NewCorestore ''autodiscovery-client'', OnConnectionReplicate False,
        NewLookupClient (key_of CHR ''d'') ''autodiscovery-lookup'', ClientReady,
        ConsoleLog ''Loading database...'', EnsureDbLoaded,
        ConsoleLog ''Autobase Discovery database version: 12'',
        ConsoleLog (''Available instances for service '' @ [CHR 0x27] @ ''search'' @ [CHR 0x27] @ '':'')]"
proof -
  have run: "fst (lookup (sample_lookup_env (Resolved ()) []) (sample_list_flags None) sample_list_args)
     = [NewHyperswarm, NewCorestore ''autodiscovery-client'', OnConnectionReplicate False,
        NewLookupClient (key_of CHR ''d'') ''autodiscovery-lookup'', ClientReady,
        ConsoleLog ''Loading database...'', EnsureDbLoaded,
        ConsoleLog ''Autobase Discovery database version: 12'',
        ConsoleLog (''Available instances for service '' @ [CHR 0x27] @ ''search'' @ [CHR 0x27] @ '':'')]
       @ ClientList ''search'' (LimitNum 10)
       # [ConsoleInfo ''None (did not find any instances)'', ClientClose, SwarmDestroy, StoreClose]"
    by (simp add: lookup_def list_instances_def sample_lookup_env_def sample_list_flags_def
        sample_list_args_def sample_decode_def key_of_def storage_of_def limit_of_def truthy_def
        show_nat.simps digit_def)
  from list_after_loaded [OF run] run show ?thesis by simp
qed

subsection \<open>The limit, the exit status and the empty listing\<close>

lemma list_instances_call:
  "ClientList s l \<in> set (fst (list_instances env svc lim)) \<Longrightarrow> s = svc \<and> l = lim"
proof (cases "client_list env svc lim")
  case (Resolved stream)
  assume mem: "ClientList s l \<in> set (fst (list_instances env svc lim))"
  show ?thesis
  proof (cases "ending stream")
    case EndOfStream
    with mem Resolved show ?thesis
      by (cases "client_close env"; cases "swarm_destroy env"; cases "store_close env")
         (auto simp: list_instances_def for_await_eq)
  next
    case (StreamError m)
    with mem Resolved show ?thesis by (auto simp: list_instances_def for_await_eq)
  next
    case StreamStalls
    with mem Resolved show ?thesis by (auto simp: list_instances_def for_await_eq)
  qed
next
  case (Rejected m)
  assume "ClientList s l \<in> set (fst (list_instances env svc lim))"
  with Rejected show ?thesis by (simp add: list_instances_def)
next
  case Pending
  assume "ClientList s l \<in> set (fst (list_instances env svc lim))"
  with Pending show ?thesis by (simp add: list_instances_def)
qed

lemma list_call_reached:
  assumes "ClientList s l \<in> set (fst (lookup env flags args))"
  shows "\<exists>k. lookup env flags args =
            emits (lookup_opening flags k @ [ConsoleLog ''Loading database...'', EnsureDbLoaded])
              (list_instances env s l)
          \<and> s = service args \<and> l = limit_of (limit flags)"
proof -
  from assms have ok: "ensureDbLoaded env = Resolved ()" by (rule list_needs_loaded)
  show ?thesis
  proof (cases "IdEnc_decode env (Some (dbKey args))")
    case (Inl m)
    with assms show ?thesis by (simp add: lookup_undecoded)
  next
    case (Inr k)
    show ?thesis
    proof (cases "client_ready env = Resolved ()")
      case False
      with assms Inr show ?thesis by (simp add: lookup_not_ready lookup_opening_def)
    next
      case True
      note run = lookup_loaded [OF Inr True ok, of flags]
      with assms have "ClientList s l \<in> set (fst (list_instances env (service args) (limit_of (limit flags))))"
        by (simp add: lookup_opening_def)
      then have "s = service args \<and> l = limit_of (limit flags)" by (rule list_instances_call)
      with run show ?thesis by blast
    qed
  qed
qed

text \<open>
  Claim C8, as amended.  Every call of \<open>client.list\<close> that \<open>list\<close> makes asks for the limit 10
  when \<open>--limit\<close> is absent or given with an empty value, and for the flag's value, as the
  string it is, when \<open>--limit\<close> is given with a non-empty value.
\<close>

theorem list_limit:
  "ClientList s l \<in> set (fst (lookup env flags args)) \<longrightarrow>
     l = (case limit flags of
            None \<Rightarrow> LimitNum 10
          | Some v \<Rightarrow> if v = [] then LimitNum 10 else LimitStr v)"
proof
  assume "ClientList s l \<in> set (fst (lookup env flags args))"
  then have "l = limit_of (limit flags)" using list_call_reached by blast
  then show "l = (case limit flags of
            None \<Rightarrow> LimitNum 10
          | Some v \<Rightarrow> if v = [] then LimitNum 10 else LimitStr v)"
    by (simp add: limit_of_def truthy_def split: option.splits)
qed

lemmas sample_lookup_defs =
  lookup_def list_instances_def sample_lookup_env_def sample_list_flags_def
  sample_list_args_def sample_decode_def key_of_def storage_of_def limit_of_def truthy_def
  show_nat.simps digit_def

theorem list_limit_witness:
  "ClientList ''search'' (LimitNum 10)
     \<in> set (fst (lookup (sample_lookup_env (Resolved ()) []) (sample_list_flags None) sample_list_args)) \<and>
   ClientList ''search'' (LimitStr ''3'')
     \<in> set (fst (lookup (sample_lookup_env (Resolved ()) []) (sample_list_flags (Some ''3'')) sample_list_args)) \<and>
   LimitNum 10 = (case limit (sample_list_flags None) of
            None \<Rightarrow> LimitNum 10
          | Some v \<Rightarrow> if v = [] then LimitNum 10 else LimitStr v) \<and>
   LimitStr ''3'' = (case limit (sample_list_flags (Some ''3'')) of
            None \<Rightarrow> LimitNum 10
          | Some v \<Rightarrow> if v = [] then LimitNum 10 else LimitStr v)"
proof -
  have absent: "ClientList ''search'' (LimitNum 10)
     \<in> set (fst (lookup (sample_lookup_env (Resolved ()) []) (sample_list_flags None) sample_list_args))"
    by (simp add: sample_lookup_defs)
  have given: "ClientList ''search'' (LimitStr ''3'')
     \<in> set (fst (lookup (sample_lookup_env (Resolved ()) []) (sample_list_flags (Some ''3'')) sample_list_args))"
    by (simp add: sample_lookup_defs)
  from absent given list_limit [THEN mp, OF absent] list_limit [THEN mp, OF given]
  show ?thesis by blast
qed

text \<open>
  The claim as first stated (a given \<open>--limit\<close> is always used) fails for \<open>--limit\<close> given with
  the empty string: the lookup asks for 10 entries, and never for the flag's value.
\<close>

theorem empty_limit_counterexample:
  "limit (sample_list_flags (Some [])) = Some [] \<and>
   ClientList ''search'' (LimitNum 10)
     \<in> set (fst (lookup (sample_lookup_env (Resolved ()) []) (sample_list_flags (Some [])) sample_list_args)) \<and>
   ClientList ''search'' (LimitStr [])
     \<notin> set (fst (lookup (sample_lookup_env (Resolved ()) []) (sample_list_flags (Some [])) sample_list_args))"
  by (simp add: sample_lookup_defs)

lemma list_instances_returns:
  "snd (list_instances env s l) = Returned \<longleftrightarrow>
     (case client_list env s l of Resolved stream \<Rightarrow> ending stream = EndOfStream | _ \<Rightarrow> False) \<and>
     client_close env = Resolved () \<and> swarm_destroy env = Resolved () \<and> store_close env = Resolved ()"
proof (cases "client_list env s l")
  case (Resolved stream)
  show ?thesis
  proof (cases "ending stream")
    case EndOfStream
    with Resolved show ?thesis
      by (cases "client_close env"; cases "swarm_destroy env"; cases "store_close env")
         (simp_all add: list_instances_def for_await_eq)
  next
    case (StreamError m)
    with Resolved show ?thesis by (simp add: list_instances_def for_await_eq)
  next
    case StreamStalls
    with Resolved show ?thesis by (simp add: list_instances_def for_await_eq)
  qed
next
  case (Rejected m)
  then show ?thesis by (simp add: list_instances_def)
next
  case Pending
  then show ?thesis by (simp add: list_instances_def)
qed

lemma lookup_returns: "snd (lookup env flags args) = Returned \<longleftrightarrow> lookup_succeeds env flags args"
proof (cases "IdEnc_decode env (Some (dbKey args))")
  case (Inl m)
  then show ?thesis by (simp add: lookup_undecoded lookup_succeeds_def)
next
  case (Inr k)
  show ?thesis
  proof (cases "client_ready env")
    case (Resolved u)
    show ?thesis
    proof (cases "ensureDbLoaded env")
      case loaded: (Resolved v)
      from Inr Resolved loaded show ?thesis
        by (simp add: lookup_loaded list_instances_returns lookup_succeeds_def)
    next
      case (Rejected m)
      with Inr Resolved show ?thesis by (simp add: lookup_def lookup_succeeds_def)
    next
      case Pending
      with Inr Resolved show ?thesis by (simp add: lookup_def lookup_succeeds_def)
    qed
  next
    case (Rejected m)
    with Inr show ?thesis by (simp add: lookup_def lookup_succeeds_def)
  next
    case Pending
    with Inr show ?thesis by (simp add: lookup_def lookup_succeeds_def)
  qed
qed

lemma load_failure:
  assumes "EnsureDbLoaded \<in> set (fst (lookup env flags args))" "ensureDbLoaded env = Rejected m"
  shows "(\<exists>pre. fst (lookup env flags args) = pre @ [EnsureDbLoaded, ConsoleError m]) \<and>
     snd (lookup env flags args) = Exited 1"
proof (cases "IdEnc_decode env (Some (dbKey args))")
  case (Inl e)
  with assms show ?thesis by (simp add: lookup_undecoded)
next
  case (Inr k)
  show ?thesis
  proof (cases "client_ready env")
    case (Resolved u)
    with Inr assms(2) have "fst (lookup env flags args) =
       (lookup_opening flags k @ [ConsoleLog ''Loading database...'']) @ [EnsureDbLoaded, ConsoleError m]"
      and "snd (lookup env flags args) = Exited 1"
      by (simp_all add: lookup_def lookup_opening_def)
    then show ?thesis by blast
  next
    case (Rejected e)
    with Inr assms show ?thesis by (simp add: lookup_def)
  next
    case Pending
    with Inr assms show ?thesis by (simp add: lookup_def)
  qed
qed

text \<open>
  Claim C3.  When \<open>list\<close> has called \<open>ensureDbLoaded\<close> and that fails with message \<open>m\<close>, the
  last things the command does are to print \<open>m\<close> with \<open>console.error\<close> and to end the process
  with \<open>process.exit(1)\<close>.  When every step of \<open>list\<close> succeeds the command returns without
  setting a status, and the process ends with status 0.
\<close>

theorem list_exit_codes:
  "(EnsureDbLoaded \<in> set (fst (lookup env flags args)) \<and> ensureDbLoaded env = Rejected m \<longrightarrow>
      (\<exists>pre. fst (lookup env flags args) = pre @ [EnsureDbLoaded, ConsoleError m]) \<and>
      snd (lookup env flags args) = Exited 1 \<and>
      exit_code (snd (lookup env flags args)) = Some 1) \<and>
   (lookup_succeeds env flags args \<longrightarrow>
      snd (lookup env flags args) = Returned \<and>
      exit_code (snd (lookup env flags args)) = Some 0)"
proof (intro conjI impI)
  assume fails: "EnsureDbLoaded \<in> set (fst (lookup env flags args)) \<and> ensureDbLoaded env = Rejected m"
  then show "\<exists>pre. fst (lookup env flags args) = pre @ [EnsureDbLoaded, ConsoleError m]"
    using load_failure by blast
  from fails show exited: "snd (lookup env flags args) = Exited 1"
    using load_failure by blast
  then show "exit_code (snd (lookup env flags args)) = Some 1"
    by (simp add: exit_code_def)
next
  assume "lookup_succeeds env flags args"
  then show returned: "snd (lookup env flags args) = Returned" by (simp add: lookup_returns)
  then show "exit_code (snd (lookup env flags args)) = Some 0" by (simp add: exit_code_def)
qed

theorem list_exit_codes_witness:
  "lookup (sample_lookup_env (Rejected ''load timeout'') []) (sample_list_flags None) sample_list_args =
     ([NewHyperswarm, NewCorestore ''autodiscovery-client'', OnConnectionReplicate False,
       NewLookupClient (key_of CHR ''d'') ''autodiscovery-lookup'', ClientReady,
       ConsoleLog ''Loading database...'', EnsureDbLoaded, ConsoleError ''load timeout''], Exited 1) \<and>
   exit_code (snd (lookup (sample_lookup_env (Rejected ''load timeout'') []) (sample_list_flags None)
     sample_list_args)) = Some 1 \<and>
   lookup_succeeds (sample_lookup_env (Resolved ()) []) (sample_list_flags None) sample_list_args \<and>
   exit_code (snd (lookup (sample_lookup_env (Resolved ()) []) (sample_list_flags None)
     sample_list_args)) = Some 0"
proof -
  let ?bad = "sample_lookup_env (Rejected ''load timeout'') []"
  let ?good = "sample_lookup_env (Resolved ()) []"
  have run: "lookup ?bad (sample_list_flags None) sample_list_args =
     ([NewHyperswarm, NewCorestore ''autodiscovery-client'', OnConnectionReplicate False,
       NewLookupClient (key_of CHR ''d'') ''autodiscovery-lookup'', ClientReady,
       ConsoleLog ''Loading database...'', EnsureDbLoaded, ConsoleError ''load timeout''], Exited 1)"
    by (simp add: sample_lookup_defs emit_def finish_def)
  then have called: "EnsureDbLoaded \<in> set (fst (lookup ?bad (sample_list_flags None) sample_list_args))"
    by simp
  have rejected: "ensureDbLoaded ?bad = Rejected ''load timeout''"
    by (simp add: sample_lookup_env_def)
  have good: "lookup_succeeds ?good (sample_list_flags None) sample_list_args"
    by (simp add: lookup_succeeds_def sample_lookup_defs)
  from list_exit_codes [of ?bad "sample_list_flags None" sample_list_args "''load timeout''"]
    called rejected
  have "exit_code (snd (lookup ?bad (sample_list_flags None) sample_list_args)) = Some 1"
    by blast
  moreover from list_exit_codes [of ?good "sample_list_flags None" sample_list_args] good
  have "exit_code (snd (lookup ?good (sample_list_flags None) sample_list_args)) = Some 0"
    by blast
  ultimately show ?thesis using run good by blast
qed




section \<open>The delete and register commands\<close>

lemma deleteCmd_undecoded:
  "IdEnc_decode env (Some (del_rpcKey args)) = Inl m \<or>
   (\<exists>k. IdEnc_decode env (Some (del_rpcKey args)) = Inr k) \<and>
     IdEnc_decode env (Some (del_accessSeed args)) = Inl m \<or>
   (\<exists>k. IdEnc_decode env (Some (del_rpcKey args)) = Inr k) \<and>
     (\<exists>s. IdEnc_decode env (Some (del_accessSeed args)) = Inr s) \<and>
     IdEnc_decode env (Some (del_publicKey args)) = Inl m
   \<Longrightarrow> deleteCmd env args = ([], Threw m)"
  by (auto simp: deleteCmd_def finish_def)

lemma deleteCmd_decoded:
  assumes "IdEnc_decode env (Some (del_rpcKey args)) = Inr k"
    "IdEnc_decode env (Some (del_accessSeed args)) = Inr s"
    "IdEnc_decode env (Some (del_publicKey args)) = Inr p"
  shows "deleteCmd env args =
     (case rpc_ready env of
        Resolved _ \<Rightarrow>
          emits (delete_opening k s @ delete_sending env k s p)
            (after_request (rpc_request env s)
               [ConsoleLog (''Successfully requested to delete service '' @ IdEnc_normalize env p),
                GoodbyeExit])
      | Rejected m \<Rightarrow> (delete_opening k s, Threw m)
      | Pending \<Rightarrow> (delete_opening k s, Hangs))"
  using assms
  by (cases "rpc_ready env"; cases "rpc_request env s")
     (simp_all add: deleteCmd_def delete_opening_def delete_sending_def after_request_def
        emit_def emits_def finish_def)

lemma registerCmd_undecoded:
  "IdEnc_decode env (Some (reg_rpcKey args)) = Inl m \<or>
   (\<exists>k. IdEnc_decode env (Some (reg_rpcKey args)) = Inr k) \<and>
     IdEnc_decode env (Some (reg_accessSeed args)) = Inl m \<or>
   (\<exists>k. IdEnc_decode env (Some (reg_rpcKey args)) = Inr k) \<and>
     (\<exists>s. IdEnc_decode env (Some (reg_accessSeed args)) = Inr s) \<and>
     IdEnc_decode env (Some (reg_publicKey args)) = Inl m
   \<Longrightarrow> registerCmd env args = ([], Threw m)"
  by (auto simp: registerCmd_def finish_def)

lemma registerCmd_decoded:
  assumes "IdEnc_decode env (Some (reg_rpcKey args)) = Inr k"
    "IdEnc_decode env (Some (reg_accessSeed args)) = Inr s"
    "IdEnc_decode env (Some (reg_publicKey args)) = Inr p"
  shows "registerCmd env args =
     (case rpc_ready env of
        Resolved _ \<Rightarrow>
          emits (register_opening k s @ register_sending env k s p (reg_serviceName args))
            (after_request (rpc_request env s)
               [ConsoleInfo (''Successfully requested to register service '' @ IdEnc_normalize env p),
                GoodbyeExit])
      | Rejected m \<Rightarrow> (register_opening k s, Threw m)
      | Pending \<Rightarrow> (register_opening k s, Hangs))"
  using assms
  by (cases "rpc_ready env"; cases "rpc_request env s")
     (simp_all add: registerCmd_def register_opening_def register_sending_def after_request_def
        emit_def emits_def finish_def)

lemma after_request_quiet:
  "filter is_session (fst (after_request answer [ConsoleLog a, GoodbyeExit])) = []"
  "filter is_request (fst (after_request answer [ConsoleLog a, GoodbyeExit])) = []"
  "filter is_session (fst (after_request answer [ConsoleInfo a, GoodbyeExit])) = []"
  "filter is_request (fst (after_request answer [ConsoleInfo a, GoodbyeExit])) = []"
  by (cases answer; simp add: after_request_def is_session_def is_request_def)+

lemma deleteCmd_at_most_once:
  "length (filter is_session (fst (deleteCmd env args))) \<le> 1 \<and>
   length (filter is_request (fst (deleteCmd env args))) \<le> 1"
proof (cases "IdEnc_decode env (Some (del_rpcKey args))")
  case (Inl m)
  then show ?thesis by (simp add: deleteCmd_undecoded)
next
  case k: (Inr k)
  show ?thesis
  proof (cases "IdEnc_decode env (Some (del_accessSeed args))")
    case (Inl m)
    with k show ?thesis by (simp add: deleteCmd_undecoded)
  next
    case s: (Inr s)
    show ?thesis
    proof (cases "IdEnc_decode env (Some (del_publicKey args))")
      case (Inl m)
      with k s show ?thesis by (simp add: deleteCmd_undecoded)
    next
      case (Inr p)
      show ?thesis
        by (cases "rpc_ready env")
           (simp_all add: deleteCmd_decoded [OF k s Inr] after_request_quiet delete_opening_def
              delete_sending_def is_session_def is_request_def)
    qed
  qed
qed

lemma registerCmd_at_most_once:
  "length (filter is_session (fst (registerCmd env args))) \<le> 1 \<and>
   length (filter is_request (fst (registerCmd env args))) \<le> 1"
proof (cases "IdEnc_decode env (Some (reg_rpcKey args))")
  case (Inl m)
  then show ?thesis by (simp add: registerCmd_undecoded)
next
  case k: (Inr k)
  show ?thesis
  proof (cases "IdEnc_decode env (Some (reg_accessSeed args))")
    case (Inl m)
    with k show ?thesis by (simp add: registerCmd_undecoded)
  next
    case s: (Inr s)
    show ?thesis
    proof (cases "IdEnc_decode env (Some (reg_publicKey args))")
      case (Inl m)
      with k s show ?thesis by (simp add: registerCmd_undecoded)
    next
      case (Inr p)
      show ?thesis
        by (cases "rpc_ready env")
           (simp_all add: registerCmd_decoded [OF k s Inr] after_request_quiet register_opening_def
              register_sending_def is_session_def is_request_def)
    qed
  qed
qed

lemma deleteCmd_once:
  assumes "IdEnc_decode env (Some (del_rpcKey args)) = Inr k"
    "IdEnc_decode env (Some (del_accessSeed args)) = Inr s"
    "IdEnc_decode env (Some (del_publicKey args)) = Inr p"
  shows "filter is_session (fst (deleteCmd env args)) = [NewDeleteClient k s]"
    and "rpc_ready env = Resolved () \<Longrightarrow> filter is_request (fst (deleteCmd env args)) = [DeleteService p]"
    and "rpc_ready env = Resolved () \<Longrightarrow> snd (deleteCmd env args) =
          (case rpc_request env s of Resolved _ \<Rightarrow> Returned | Rejected m \<Rightarrow> Threw m | Pending \<Rightarrow> Hangs)"
proof -
  show "filter is_session (fst (deleteCmd env args)) = [NewDeleteClient k s]"
    by (cases "rpc_ready env")
       (simp_all add: deleteCmd_decoded [OF assms] after_request_quiet delete_opening_def
          delete_sending_def is_session_def)
  show "filter is_request (fst (deleteCmd env args)) = [DeleteService p]" if "rpc_ready env = Resolved ()"
    using that by (simp add: deleteCmd_decoded [OF assms] after_request_quiet delete_opening_def
          delete_sending_def is_request_def)
  show "snd (deleteCmd env args) =
          (case rpc_request env s of Resolved _ \<Rightarrow> Returned | Rejected m \<Rightarrow> Threw m | Pending \<Rightarrow> Hangs)"
    if "rpc_ready env = Resolved ()"
    using that by (cases "rpc_request env s") (simp_all add: deleteCmd_decoded [OF assms] after_request_def)
qed

lemma registerCmd_once:
  assumes "IdEnc_decode env (Some (reg_rpcKey args)) = Inr k"
    "IdEnc_decode env (Some (reg_accessSeed args)) = Inr s"
    "IdEnc_decode env (Some (reg_publicKey args)) = Inr p"
  shows "filter is_session (fst (registerCmd env args)) = [NewRegisterClient k s]"
    and "rpc_ready env = Resolved () \<Longrightarrow>
          filter is_request (fst (registerCmd env args)) = [PutService p (reg_serviceName args)]"
    and "rpc_ready env = Resolved () \<Longrightarrow> snd (registerCmd env args) =
          (case rpc_request env s of Resolved _ \<Rightarrow> Returned | Rejected m \<Rightarrow> Threw m | Pending \<Rightarrow> Hangs)"
proof -
  show "filter is_session (fst (registerCmd env args)) = [NewRegisterClient k s]"
    by (cases "rpc_ready env")
       (simp_all add: registerCmd_decoded [OF assms] after_request_quiet register_opening_def
          register_sending_def is_session_def)
  show "filter is_request (fst (registerCmd env args)) = [PutService p (reg_serviceName args)]"
    if "rpc_ready env = Resolved ()"
    using that by (simp add: registerCmd_decoded [OF assms] after_request_quiet register_opening_def
          register_sending_def is_request_def)
  show "snd (registerCmd env args) =
          (case rpc_request env s of Resolved _ \<Rightarrow> Returned | Rejected m \<Rightarrow> Threw m | Pending \<Rightarrow> Hangs)"
    if "rpc_ready env = Resolved ()"
    using that by (cases "rpc_request env s") (simp_all add: registerCmd_decoded [OF assms] after_request_def)
qed

text \<open>
  Claim C7.  No run of \<open>delete\<close> or \<open>register\<close> makes more than one client or sends more than
  one request, so nothing is retried.  When the arguments decode, exactly one client is made,
  for the RPC server key and the seed given; when its session becomes ready, exactly one
  request is sent (\<open>deleteService\<close> of the key, \<open>putService\<close> of the key and the service
  name), and the command ends as that one response settles: it returns when the request
  resolves, the rejection escapes when it rejects, and it waits when it never settles.
\<close>

theorem one_session_one_request:
  "length (filter is_session (fst (deleteCmd env dargs))) \<le> 1 \<and>
   length (filter is_request (fst (deleteCmd env dargs))) \<le> 1 \<and>
   length (filter is_session (fst (registerCmd env rargs))) \<le> 1 \<and>
   length (filter is_request (fst (registerCmd env rargs))) \<le> 1 \<and>
   (IdEnc_decode env (Some (del_rpcKey dargs)) = Inr k \<and>
    IdEnc_decode env (Some (del_accessSeed dargs)) = Inr s \<and>
    IdEnc_decode env (Some (del_publicKey dargs)) = Inr p \<longrightarrow>
      filter is_session (fst (deleteCmd env dargs)) = [NewDeleteClient k s] \<and>
      (rpc_ready env = Resolved () \<longrightarrow>
         filter is_request (fst (deleteCmd env dargs)) = [DeleteService p] \<and>
         snd (deleteCmd env dargs) =
           (case rpc_request env s of
              Resolved _ \<Rightarrow> Returned | Rejected m \<Rightarrow> Threw m | Pending \<Rightarrow> Hangs))) \<and>
   (IdEnc_decode env (Some (reg_rpcKey rargs)) = Inr k' \<and>
    IdEnc_decode env (Some (reg_accessSeed rargs)) = Inr s' \<and>
    IdEnc_decode env (Some (reg_publicKey rargs)) = Inr p' \<longrightarrow>
      filter is_session (fst (registerCmd env rargs)) = [NewRegisterClient k' s'] \<and>
      (rpc_ready env = Resolved () \<longrightarrow>
         filter is_request (fst (registerCmd env rargs)) = [PutService p' (reg_serviceName rargs)] \<and>
         snd (registerCmd env rargs) =
           (case rpc_request env s' of
              Resolved _ \<Rightarrow> Returned | Rejected m \<Rightarrow> Threw m | Pending \<Rightarrow> Hangs)))"
  using deleteCmd_at_most_once [of env dargs] registerCmd_at_most_once [of env rargs]
    deleteCmd_once [of env dargs k s p] registerCmd_once [of env rargs k' s' p']
  by blast

lemmas sample_rpc_defs =
  sample_rpc_env_def sample_delete_args_def sample_register_args_def sample_decode_def key_of_def
  seeded_request_def

theorem one_session_one_request_witness:
  "filter is_session (fst (deleteCmd sample_rpc_env (sample_delete_args CHR ''s'')))
     = [NewDeleteClient (key_of CHR ''r'') (key_of CHR ''s'')] \<and>
   filter is_request (fst (deleteCmd sample_rpc_env (sample_delete_args CHR ''s'')))
     = [DeleteService (key_of CHR ''p'')] \<and>
   snd (deleteCmd sample_rpc_env (sample_delete_args CHR ''s'')) = Returned \<and>
   filter is_session (fst (registerCmd sample_rpc_env (sample_register_args CHR ''s'')))
     = [NewRegisterClient (key_of CHR ''r'') (key_of CHR ''s'')] \<and>
   filter is_request (fst (registerCmd sample_rpc_env (sample_register_args CHR ''s'')))
     = [PutService (key_of CHR ''p'') ''search''] \<and>
   snd (registerCmd sample_rpc_env (sample_register_args CHR ''s'')) = Returned"
proof -
  let ?d = "sample_delete_args CHR ''s''" and ?r = "sample_register_args CHR ''s''"
  have d: "IdEnc_decode sample_rpc_env (Some (del_rpcKey ?d)) = Inr (key_of CHR ''r'')"
    "IdEnc_decode sample_rpc_env (Some (del_accessSeed ?d)) = Inr (key_of CHR ''s'')"
    "IdEnc_decode sample_rpc_env (Some (del_publicKey ?d)) = Inr (key_of CHR ''p'')"
    by (simp_all add: sample_rpc_defs)
  have r: "IdEnc_decode sample_rpc_env (Some (reg_rpcKey ?r)) = Inr (key_of CHR ''r'')"
    "IdEnc_decode sample_rpc_env (Some (reg_accessSeed ?r)) = Inr (key_of CHR ''s'')"
    "IdEnc_decode sample_rpc_env (Some (reg_publicKey ?r)) = Inr (key_of CHR ''p'')"
    by (simp_all add: sample_rpc_defs)
  have ready: "rpc_ready sample_rpc_env = Resolved ()"
    and answer: "rpc_request sample_rpc_env (key_of CHR ''s'') = Resolved ()"
    and name: "reg_serviceName ?r = ''search''"
    by (simp_all add: sample_rpc_defs)
  from one_session_one_request [of sample_rpc_env ?d ?r "key_of CHR ''r''" "key_of CHR ''s''"
      "key_of CHR ''p''" "key_of CHR ''r''" "key_of CHR ''s''" "key_of CHR ''p''"] d r ready
  show ?thesis by (simp add: answer name)
qed

text \<open>
  Claim C4.  With the mutation clients as the spec describes them (\<open>seeded_request\<close>): in
  a \<open>delete\<close> or \<open>register\<close> whose arguments decode and whose session is ready, a seed
  whose key pair is not the allowed one leaves the command waiting for ever after the line
  that announces the request.  Nothing is printed after that line, no error is thrown or
  printed and the process is not ended; what was printed depends neither on the allowed
  key nor on the server's answer, and it is an initial part of what the same command prints
  when the server allows that seed.
\<close>

theorem wrong_seed_hangs:
  "rpc_request env = seeded_request (keyPair_publicKey env) allowed answer \<and>
   rpc_ready env = Resolved () \<longrightarrow>
   (IdEnc_decode env (Some (del_rpcKey dargs)) = Inr k \<and>
    IdEnc_decode env (Some (del_accessSeed dargs)) = Inr s \<and>
    IdEnc_decode env (Some (del_publicKey dargs)) = Inr p \<and>
    keyPair_publicKey env s \<noteq> allowed \<longrightarrow>
      deleteCmd env dargs =
        ([NewHyperDHT, NewDeleteClient k s, Goodbye,
          ConsoleInfo ''Opening connection... (press ctrl-c to cancel)'', ClientReady,
          ConsoleLog (''Sending delete request to RPC server '' @ IdEnc_normalize env k
            @ '', using public key '' @ IdEnc_normalize env (keyPair_publicKey env s) @ ''...''),
          DeleteService p], Hangs) \<and>
      (\<exists>rest. fst (deleteCmd (env\<lparr>rpc_request :=
                  seeded_request (keyPair_publicKey env) (keyPair_publicKey env s) answer\<rparr>) dargs)
               = fst (deleteCmd env dargs) @ rest)) \<and>
   (IdEnc_decode env (Some (reg_rpcKey rargs)) = Inr k' \<and>
    IdEnc_decode env (Some (reg_accessSeed rargs)) = Inr s' \<and>
    IdEnc_decode env (Some (reg_publicKey rargs)) = Inr p' \<and>
    keyPair_publicKey env s' \<noteq> allowed \<longrightarrow>
      registerCmd env rargs =
        ([NewHyperDHT, NewRegisterClient k' s', Goodbye,
          ConsoleInfo ''Opening connection... (press ctrl-c to cancel)'', ClientReady,
          ConsoleInfo (''Sending register request to RPC server '' @ IdEnc_normalize env k'
            @ '', using public key '' @ IdEnc_normalize env (keyPair_publicKey env s') @ ''...''),
          PutService p' (reg_serviceName rargs)], Hangs) \<and>
      (\<exists>rest. fst (registerCmd (env\<lparr>rpc_request :=
                  seeded_request (keyPair_publicKey env) (keyPair_publicKey env s') answer\<rparr>) rargs)
               = fst (registerCmd env rargs) @ rest))"
proof (intro impI conjI; elim conjE)
  assume gate: "rpc_request env = seeded_request (keyPair_publicKey env) allowed answer"
    and ready: "rpc_ready env = Resolved ()"
  {
    assume dec: "IdEnc_decode env (Some (del_rpcKey dargs)) = Inr k"
      "IdEnc_decode env (Some (del_accessSeed dargs)) = Inr s"
      "IdEnc_decode env (Some (del_publicKey dargs)) = Inr p"
      and wrong: "keyPair_publicKey env s \<noteq> allowed"
    from gate wrong have pending: "rpc_request env s = Pending"
      by (simp add: seeded_request_def)
    with ready show run: "deleteCmd env dargs =
        ([NewHyperDHT, NewDeleteClient k s, Goodbye,
          ConsoleInfo ''Opening connection... (press ctrl-c to cancel)'', ClientReady,
          ConsoleLog (''Sending delete request to RPC server '' @ IdEnc_normalize env k
            @ '', using public key '' @ IdEnc_normalize env (keyPair_publicKey env s) @ ''...''),
          DeleteService p], Hangs)"
      by (simp add: deleteCmd_decoded [OF dec] after_request_def delete_opening_def
          delete_sending_def emits_def)
    let ?env = "env\<lparr>rpc_request :=
                  seeded_request (keyPair_publicKey env) (keyPair_publicKey env s) answer\<rparr>"
    from dec have dec': "IdEnc_decode ?env (Some (del_rpcKey dargs)) = Inr k"
      "IdEnc_decode ?env (Some (del_accessSeed dargs)) = Inr s"
      "IdEnc_decode ?env (Some (del_publicKey dargs)) = Inr p"
      by simp_all
    from ready have "fst (deleteCmd ?env dargs) = fst (deleteCmd env dargs)
        @ fst (after_request answer
               [ConsoleLog (''Successfully requested to delete service '' @ IdEnc_normalize env p),
                GoodbyeExit])"
      by (simp add: deleteCmd_decoded [OF dec'] run delete_opening_def delete_sending_def
          seeded_request_def)
    then show "\<exists>rest. fst (deleteCmd ?env dargs) = fst (deleteCmd env dargs) @ rest"
      by blast
  }
  {
    assume dec: "IdEnc_decode env (Some (reg_rpcKey rargs)) = Inr k'"
      "IdEnc_decode env (Some (reg_accessSeed rargs)) = Inr s'"
      "IdEnc_decode env (Some (reg_publicKey rargs)) = Inr p'"
      and wrong: "keyPair_publicKey env s' \<noteq> allowed"
    from gate wrong have pending: "rpc_request env s' = Pending"
      by (simp add: seeded_request_def)
    with ready show run: "registerCmd env rargs =
        ([NewHyperDHT, NewRegisterClient k' s', Goodbye,
          ConsoleInfo ''Opening connection... (press ctrl-c to cancel)'', ClientReady,
          ConsoleInfo (''Sending register request to RPC server '' @ IdEnc_normalize env k'
            @ '', using public key '' @ IdEnc_normalize env (keyPair_publicKey env s') @ ''...''),
          PutService p' (reg_serviceName rargs)], Hangs)"
      by (simp add: registerCmd_decoded [OF dec] after_request_def register_opening_def
          register_sending_def emits_def)
    let ?env = "env\<lparr>rpc_request :=
                  seeded_request (keyPair_publicKey env) (keyPair_publicKey env s') answer\<rparr>"
    from dec have dec': "IdEnc_decode ?env (Some (reg_rpcKey rargs)) = Inr k'"
      "IdEnc_decode ?env (Some (reg_accessSeed rargs)) = Inr s'"
      "IdEnc_decode ?env (Some (reg_publicKey rargs)) = Inr p'"
      by simp_all
    from ready have "fst (registerCmd ?env rargs) = fst (registerCmd env rargs)
        @ fst (after_request answer
               [ConsoleInfo (''Successfully requested to register service '' @ IdEnc_normalize env p'),
                GoodbyeExit])"
      by (simp add: registerCmd_decoded [OF dec'] run register_opening_def register_sending_def
          seeded_request_def)
    then show "\<exists>rest. fst (registerCmd ?env rargs) = fst (registerCmd env rargs) @ rest"
      by blast
  }
qed

theorem wrong_seed_hangs_witness:
  "keyPair_publicKey sample_rpc_env (key_of CHR ''w'') \<noteq> key_of CHR ''s'' \<and>
   deleteCmd sample_rpc_env (sample_delete_args CHR ''w'') =
     ([NewHyperDHT, NewDeleteClient (key_of CHR ''r'') (key_of CHR ''w''), Goodbye,
       ConsoleInfo ''Opening connection... (press ctrl-c to cancel)'', ClientReady,
       ConsoleLog (''Sending delete request to RPC server '' @ key_of CHR ''r''
         @ '', using public key '' @ key_of CHR ''w'' @ ''...''),
       DeleteService (key_of CHR ''p'')], Hangs) \<and>
   registerCmd sample_rpc_env (sample_register_args CHR ''w'') =
     ([NewHyperDHT, NewRegisterClient (key_of CHR ''r'') (key_of CHR ''w''), Goodbye,
       ConsoleInfo ''Opening connection... (press ctrl-c to cancel)'', ClientReady,
       ConsoleInfo (''Sending register request to RPC server '' @ key_of CHR ''r''
         @ '', using public key '' @ key_of CHR ''w'' @ ''...''),
       PutService (key_of CHR ''p'') ''search''], Hangs)"
proof -
  let ?d = "sample_delete_args CHR ''w''" and ?r = "sample_register_args CHR ''w''"
  have gate: "rpc_request sample_rpc_env =
      seeded_request (keyPair_publicKey sample_rpc_env) (key_of CHR ''s'') (Resolved ())"
    and ready: "rpc_ready sample_rpc_env = Resolved ()"
    by (simp_all add: sample_rpc_env_def)
  have d: "IdEnc_decode sample_rpc_env (Some (del_rpcKey ?d)) = Inr (key_of CHR ''r'')"
    "IdEnc_decode sample_rpc_env (Some (del_accessSeed ?d)) = Inr (key_of CHR ''w'')"
    "IdEnc_decode sample_rpc_env (Some (del_publicKey ?d)) = Inr (key_of CHR ''p'')"
    by (simp_all add: sample_rpc_defs)
  have r: "IdEnc_decode sample_rpc_env (Some (reg_rpcKey ?r)) = Inr (key_of CHR ''r'')"
    "IdEnc_decode sample_rpc_env (Some (reg_accessSeed ?r)) = Inr (key_of CHR ''w'')"
    "IdEnc_decode sample_rpc_env (Some (reg_publicKey ?r)) = Inr (key_of CHR ''p'')"
    by (simp_all add: sample_rpc_defs)
  have wrong: "keyPair_publicKey sample_rpc_env (key_of CHR ''w'') \<noteq> key_of CHR ''s''"
    by (simp add: sample_rpc_env_def key_of_def)
  have shown: "IdEnc_normalize sample_rpc_env = (\<lambda>k. k)" "keyPair_publicKey sample_rpc_env = (\<lambda>k. k)"
    "reg_serviceName ?r = ''search''"
    by (simp_all add: sample_rpc_env_def sample_register_args_def)
  from wrong_seed_hangs [of sample_rpc_env "key_of CHR ''s''" "Resolved ()" ?d "key_of CHR ''r''"
      "key_of CHR ''w''" "key_of CHR ''p''" ?r "key_of CHR ''r''" "key_of CHR ''w''" "key_of CHR ''p''"]
    gate ready d r wrong
  show ?thesis by (simp add: shown)
qed

section \<open>The run command\<close>

subsection \<open>The run of \<open>run\<close>, stage by stage\<close>

lemma instrument_shape:
  "(\<exists>pre b. instrument env flags kp k = emits pre (k b) \<and> list_all is_setup pre) \<or>
   (\<exists>pre m. instrument env flags kp k = (pre, Threw m) \<and> list_all is_setup pre)"
proof (cases "truthy (scraperPublicKey flags)")
  case False
  then have "instrument env flags kp k = emits [] (k False) \<and> list_all is_setup []"
    by (simp add: instrument_def emits_def)
  then show ?thesis by blast
next
  case scraper: True
  let ?start = "LoggerInfo ''Setting up instrumentation''"
  have start: "list_all is_setup [?start]" by (simp add: is_setup_def)
  show ?thesis
  proof (cases "IdEnc_decode env (scraperPublicKey flags)")
    case (Inl m)
    with scraper have "instrument env flags kp k = ([?start], Threw m)"
      by (simp add: instrument_def emit_def finish_def)
    with start show ?thesis by blast
  next
    case pk: (Inr a)
    show ?thesis
    proof (cases "IdEnc_decode env (scraperSecret flags)")
      case (Inl m)
      with scraper pk have "instrument env flags kp k = ([?start], Threw m)"
        by (simp add: instrument_def emit_def finish_def)
      with start show ?thesis by blast
    next
      case secret: (Inr b)
      show ?thesis
      proof (cases "prometheusAlias_of (scraperAlias flags) (IdEnc_normalize env kp)")
        case (Inl m)
        with scraper pk secret have "instrument env flags kp k = ([?start], Threw m)"
          by (simp add: instrument_def emit_def finish_def)
        with start show ?thesis by blast
      next
        case (Inr name)
        let ?opts = "\<lparr>opt_scraperPublicKey = a, opt_prometheusAlias = name,
                opt_scraperSecret = b, opt_prometheusServiceName =  ''autodiscovery'',
                opt_version = ownVersion env\<rparr>"
        from Inr scraper pk secret have "instrument env flags kp k =
          emits [?start, NewInstrumentation ?opts, RegisterLogger] (k True)"
          by (simp add: instrument_def emit_def emits_def)
        moreover have "list_all is_setup [?start, NewInstrumentation ?opts, RegisterLogger]"
          by (simp add: is_setup_def)
        ultimately show ?thesis by blast
      qed
    qed
  qed
qed

lemma runCmd_stages:
  assumes "IdEnc_decode env (Some (rpcAllowedPublicKey args)) = Inr allowed"
  shows "\<exists>pre boot. list_all is_setup pre \<and> (\<forall>opts. NewInstrumentation opts \<notin> set pre) \<and>
    runCmd env flags args = emits pre (
      await StoreReady (store_ready env) (\<lambda>_.
      await (CreateKeyPair ''public-key'') (store_createKeyPair env) (\<lambda>keyPair.
      emits [NewHyperswarmWith keyPair boot, OnConnectionLog] (
      instrument env flags keyPair (start_service env allowed (run_config env flags))))))"
proof -
  let ?storage = "path_resolve env
            (case run_storage flags of
               Some s \<Rightarrow> if truthy (run_storage flags) then s else ''autodiscovery''
             | None \<Rightarrow> ''autodiscovery'')"
  let ?boot = "(case bootstrap flags of
               Some b \<Rightarrow> if truthy (bootstrap flags) then Some (bootstrap_of env b) else None
             | None \<Rightarrow> None)"
  let ?warn = "(case ?boot of
               Some (b # _) \<Rightarrow>
                 [LoggerWarn (''Using non-standard bootstrap: '' @ host b @ '':'' @ show_jsnum (port b))]
             | _ \<Rightarrow> [])"
  let ?pre = "?warn @ [LoggerInfo (''Using storage: '' @ ?storage), NewCorestore ?storage]"
  have "list_all is_setup ?warn"
    by (simp add: is_setup_def split: option.splits list.splits)
  then have "list_all is_setup ?pre" by (simp add: is_setup_def)
  moreover have "\<forall>opts. NewInstrumentation opts \<notin> set ?pre"
    by (simp split: option.splits list.splits)
  moreover from assms have "runCmd env flags args = emits ?pre (
      await StoreReady (store_ready env) (\<lambda>_.
      await (CreateKeyPair ''public-key'') (store_createKeyPair env) (\<lambda>keyPair.
      emits [NewHyperswarmWith keyPair ?boot, OnConnectionLog] (
      instrument env flags keyPair (start_service env allowed (run_config env flags))))))"
    by (simp add: runCmd_def Let_def emit_def emits_def)
  ultimately show ?thesis by blast
qed

lemma runCmd_shape:
  "(\<exists>pre allowed kp. runCmd env flags args =
        emits pre (instrument env flags kp (start_service env allowed (run_config env flags)))
      \<and> list_all is_setup pre
      \<and> IdEnc_decode env (Some (rpcAllowedPublicKey args)) = Inr allowed) \<or>
   (\<exists>pre out. runCmd env flags args = (pre, out) \<and> out \<noteq> Returned \<and> list_all is_setup pre)"
proof (cases "IdEnc_decode env (Some (rpcAllowedPublicKey args))")
  case (Inl m)
  then have "runCmd env flags args = ([], Threw m) \<and> Threw m \<noteq> Returned \<and> list_all is_setup []"
    by (simp add: runCmd_def finish_def)
  then show ?thesis by blast
next
  case (Inr allowed)
  from runCmd_stages [OF Inr] obtain pre boot where pre: "list_all is_setup pre"
    and clean: "\<forall>opts. NewInstrumentation opts \<notin> set pre"
    and run: "runCmd env flags args = emits pre (
      await StoreReady (store_ready env) (\<lambda>_.
      await (CreateKeyPair ''public-key'') (store_createKeyPair env) (\<lambda>keyPair.
      emits [NewHyperswarmWith keyPair boot, OnConnectionLog] (
      instrument env flags keyPair (start_service env allowed (run_config env flags))))))"
    by blast
  show ?thesis
  proof (cases "store_ready env")
    case (Resolved u)
    show ?thesis
    proof (cases "store_createKeyPair env")
      case kp: (Resolved kp)
      from run Resolved kp Inr have "runCmd env flags args =
        emits (pre @ [StoreReady, CreateKeyPair ''public-key'', NewHyperswarmWith kp boot, OnConnectionLog])
          (instrument env flags kp (start_service env allowed (run_config env flags)))
        \<and> IdEnc_decode env (Some (rpcAllowedPublicKey args)) = Inr allowed"
        by (simp add: emit_def emits_def)
      moreover from pre have "list_all is_setup (pre @ [StoreReady, CreateKeyPair ''public-key'', NewHyperswarmWith kp boot, OnConnectionLog])"
        by (simp add: is_setup_def)
      ultimately show ?thesis by blast
    next
      case (Rejected m)
      from run Resolved Rejected have "runCmd env flags args = (pre @ [StoreReady, CreateKeyPair ''public-key''], Threw m)"
        by (simp add: emit_def emits_def finish_def)
      moreover from pre have "list_all is_setup (pre @ [StoreReady, CreateKeyPair ''public-key''])"
        by (simp add: is_setup_def)
      ultimately show ?thesis by blast
    next
      case Pending
      from run Resolved Pending have "runCmd env flags args = (pre @ [StoreReady, CreateKeyPair ''public-key''], Hangs)"
        by (simp add: emit_def emits_def finish_def)
      moreover from pre have "list_all is_setup (pre @ [StoreReady, CreateKeyPair ''public-key''])"
        by (simp add: is_setup_def)
      ultimately show ?thesis by blast
    qed
  next
    case (Rejected m)
    from run Rejected have "runCmd env flags args = (pre @ [StoreReady], Threw m)"
      by (simp add: emit_def emits_def finish_def)
    moreover from pre have "list_all is_setup (pre @ [StoreReady])"
      by (simp add: is_setup_def)
    ultimately show ?thesis by blast
  next
    case Pending
    from run Pending have "runCmd env flags args = (pre @ [StoreReady], Hangs)"
      by (simp add: emit_def emits_def finish_def)
    moreover from pre have "list_all is_setup (pre @ [StoreReady])"
      by (simp add: is_setup_def)
    ultimately show ?thesis by blast
  qed
qed

lemma runCmd_phases:
  "(\<exists>pre allowed instr. runCmd env flags args =
        emits pre (start_service env allowed (run_config env flags) instr)
      \<and> list_all is_setup pre
      \<and> IdEnc_decode env (Some (rpcAllowedPublicKey args)) = Inr allowed) \<or>
   (\<exists>pre out. runCmd env flags args = (pre, out) \<and> out \<noteq> Returned \<and> list_all is_setup pre)"
proof -
  consider (on) pre allowed kp where
      "runCmd env flags args =
         emits pre (instrument env flags kp (start_service env allowed (run_config env flags)))"
      "list_all is_setup pre" "IdEnc_decode env (Some (rpcAllowedPublicKey args)) = Inr allowed"
    | (off) pre out where "runCmd env flags args = (pre, out)" "out \<noteq> Returned" "list_all is_setup pre"
    using runCmd_shape [of env flags args] by blast
  then show ?thesis
  proof cases
    case on
    let ?k = "start_service env allowed (run_config env flags)"
    from instrument_shape [of env flags kp ?k] show ?thesis
    proof (elim disjE exE conjE)
      fix more b
      assume "instrument env flags kp ?k = emits more (?k b)" "list_all is_setup more"
      with on have "runCmd env flags args = emits (pre @ more) (?k b) \<and> list_all is_setup (pre @ more)
          \<and> IdEnc_decode env (Some (rpcAllowedPublicKey args)) = Inr allowed"
        by (simp add: emits_def)
      then show ?thesis by blast
    next
      fix more m
      assume "instrument env flags kp ?k = (more, Threw m)" "list_all is_setup more"
      with on have "runCmd env flags args = (pre @ more, Threw m) \<and> Threw m \<noteq> Returned
          \<and> list_all is_setup (pre @ more)"
        by (simp add: emits_def)
      then show ?thesis by blast
    qed
  next
    case off
    then show ?thesis by blast
  qed
qed

lemmas sample_run_defs =
  runCmd_def start_service_def instrument_def run_config_def flag_or_def prometheusAlias_of_def
  sample_run_env_def plain_run_flags_def sample_run_args_def sample_decode_def key_of_def
  sample_parseInt_def is_space_def digit_value_def in_radix_def radix_value_def truthy_def show_nat.simps digit_def Let_def

subsection \<open>The two topics\<close>












subsection \<open>The limits of the admission middleware\<close>

lemma start_service_router:
  "RouterUse c \<in> set (fst (start_service env allowed config instr)) \<Longrightarrow> c = config"
  by (cases instr; cases "instrumentation_ready env"; cases "service_ready env")
     (simp_all add: start_service_def)

lemma setup_no_router: "list_all is_setup es \<Longrightarrow> RouterUse c \<notin> set es"
  by (induction es) (auto simp: is_setup_def)

lemma runCmd_router:
  "RouterUse c \<in> set (fst (runCmd env flags args)) \<Longrightarrow> c = run_config env flags"
  using runCmd_phases [of env flags args]
  by (auto simp: setup_no_router dest: start_service_router)

text \<open>
  Claim C2, as amended.  Whenever \<open>run\<close> configures the admission middleware
  (\<open>router.use\<close>), each of the three limits is the default (bucket capacity 10, refill
  interval 100 ms, concurrency capacity 16) when its flag is absent or given with an empty
  value, and \<open>parseInt\<close> of the flag's value when the flag is given with a non-empty value.
\<close>

theorem middleware_limits:
  "RouterUse c \<in> set (fst (runCmd env flags args)) \<longrightarrow>
     capacity (rateLimit c) =
       (case rateLimitCapacity flags of
          None \<Rightarrow> Num 10
        | Some v \<Rightarrow> if v = [] then Num 10 else parseInt env (Some v)) \<and>
     intervalMs (rateLimit c) =
       (case rateLimitIntervalMs flags of
          None \<Rightarrow> Num 100
        | Some v \<Rightarrow> if v = [] then Num 100 else parseInt env (Some v)) \<and>
     concurrent_capacity (concurrentLimit c) =
       (case concurrentLimitCapacity flags of
          None \<Rightarrow> Num 16
        | Some v \<Rightarrow> if v = [] then Num 16 else parseInt env (Some v))"
proof
  assume "RouterUse c \<in> set (fst (runCmd env flags args))"
  then have "c = run_config env flags" by (rule runCmd_router)
  then show "capacity (rateLimit c) =
       (case rateLimitCapacity flags of
          None \<Rightarrow> Num 10
        | Some v \<Rightarrow> if v = [] then Num 10 else parseInt env (Some v)) \<and>
     intervalMs (rateLimit c) =
       (case rateLimitIntervalMs flags of
          None \<Rightarrow> Num 100
        | Some v \<Rightarrow> if v = [] then Num 100 else parseInt env (Some v)) \<and>
     concurrent_capacity (concurrentLimit c) =
       (case concurrentLimitCapacity flags of
          None \<Rightarrow> Num 16
        | Some v \<Rightarrow> if v = [] then Num 16 else parseInt env (Some v))"
    by (simp add: run_config_def flag_or_def truthy_def split: option.splits)
qed

theorem middleware_limits_witness:
  "RouterUse \<lparr>rateLimit = \<lparr>capacity = Num 10, intervalMs = Num 25\<rparr>,
              concurrentLimit = \<lparr>concurrent_capacity = NaN\<rparr>\<rparr>
     \<in> set (fst (runCmd sample_run_env (limits_run_flags None (Some ''25'') (Some ''many'')) sample_run_args))
   \<and> sample_parseInt (Some ''25'') = Num 25 \<and> sample_parseInt (Some ''many'') = NaN"
proof -
  let ?c = "\<lparr>rateLimit = \<lparr>capacity = Num 10, intervalMs = Num 25\<rparr>,
              concurrentLimit = \<lparr>concurrent_capacity = NaN\<rparr>\<rparr>"
  let ?f = "limits_run_flags None (Some ''25'') (Some ''many'')"
  have run: "RouterUse (run_config sample_run_env ?f) \<in> set (fst (runCmd sample_run_env ?f sample_run_args))"
    by (simp add: runCmd_def start_service_def instrument_def
        sample_run_env_def plain_run_flags_def sample_run_args_def sample_decode_def key_of_def
        truthy_def limits_run_flags_def Let_def)
  with middleware_limits [of "run_config sample_run_env ?f" sample_run_env ?f sample_run_args]
  have "run_config sample_run_env ?f = ?c"
    by (simp add: limits_run_flags_def plain_run_flags_def sample_run_env_def sample_parseInt_def is_space_def digit_value_def in_radix_def radix_value_def)
  with run show ?thesis by (simp add: sample_parseInt_def is_space_def digit_value_def in_radix_def radix_value_def)
qed

text \<open>
  The claim as first stated (a flag that is present is always parsed) fails for a flag given
  with the empty string: the string is falsy, the capacity is the default 10 and not
  \<open>parseInt('')\<close>, which is \<open>NaN\<close>.
\<close>

theorem empty_limit_flag_counterexample:
  "rateLimitCapacity (limits_run_flags (Some []) None None) = Some [] \<and>
   RouterUse (run_config sample_run_env (limits_run_flags (Some []) None None))
     \<in> set (fst (runCmd sample_run_env (limits_run_flags (Some []) None None) sample_run_args)) \<and>
   capacity (rateLimit (run_config sample_run_env (limits_run_flags (Some []) None None))) = Num 10 \<and>
   parseInt sample_run_env (rateLimitCapacity (limits_run_flags (Some []) None None)) = NaN"
  by (simp add: sample_run_defs limits_run_flags_def)

subsection \<open>The lines printed on startup\<close>

lemma start_service_lines:
  assumes "snd (start_service env allowed config instr) = Returned"
  shows "\<exists>pre. fst (start_service env allowed config instr) = pre @ startup_lines env allowed"
proof -
  from assms have ready: "service_ready env = Resolved ()"
    by (cases instr; cases "instrumentation_ready env"; cases "service_ready env")
       (simp_all add: start_service_def)
  show ?thesis
  proof (cases instr)
    case True
    with assms have "instrumentation_ready env = Resolved ()"
      by (cases "instrumentation_ready env") (simp_all add: start_service_def)
    with True ready have "fst (start_service env allowed config instr) =
      [NewRouter, RouterUse config, RegisterMetrics, NewAutodiscovery ''autodiscovery'' allowed,
       OnRpcSession, Goodbye, InstrumentationReady, LoggerInfo ''Starting autodiscovery service'',
       ServiceReady, SwarmJoin (base_discoveryKey env) None,
       SwarmJoin (dbDiscoveryKey env) (Some \<lparr>client = True, server = True\<rparr>)]
      @ startup_lines env allowed"
      by (simp add: start_service_def startup_lines_def)
    then show ?thesis by blast
  next
    case False
    with ready have "fst (start_service env allowed config instr) =
      [NewRouter, RouterUse config, NewAutodiscovery ''autodiscovery'' allowed,
       OnRpcSession, Goodbye, LoggerInfo ''Starting autodiscovery service'',
       ServiceReady, SwarmJoin (base_discoveryKey env) None,
       SwarmJoin (dbDiscoveryKey env) (Some \<lparr>client = True, server = True\<rparr>)]
      @ startup_lines env allowed"
      by (simp add: start_service_def startup_lines_def)
    then show ?thesis by blast
  qed
qed

text \<open>
  Claim C5.  Every startup that completes ends with these lines of the logger, in this
  order: the registry's version (the length of the view's core), the Autobase key, the key
  of the name-service database, the public key of the RPC server, and the public key that
  is allowed to send requests.
\<close>

theorem startup_prints_keys_and_version:
  "snd (runCmd env flags args) = Returned \<longrightarrow>
     (\<exists>pre allowed. IdEnc_decode env (Some (rpcAllowedPublicKey args)) = Inr allowed \<and>
        fst (runCmd env flags args) = pre @
          [LoggerInfo (''DB version: '' @ show_nat (view_core_length env)),
           LoggerInfo (''Autobase key: '' @ IdEnc_normalize env (base_key env)),
           LoggerInfo (''Name-service database key: '' @ IdEnc_normalize env (service_dbKey env)),
           LoggerInfo (''RPC server public key: '' @ IdEnc_normalize env (serverPublicKey env)),
           LoggerInfo (''Accepting RPC connections from public key '' @ IdEnc_normalize env allowed)])"
proof
  assume ok: "snd (runCmd env flags args) = Returned"
  with runCmd_phases [of env flags args] obtain pre allowed instr where
    run: "runCmd env flags args = emits pre (start_service env allowed (run_config env flags) instr)"
    and key: "IdEnc_decode env (Some (rpcAllowedPublicKey args)) = Inr allowed"
    by auto
  from ok run have "snd (start_service env allowed (run_config env flags) instr) = Returned"
    by simp
  from start_service_lines [OF this] obtain more where
    "fst (start_service env allowed (run_config env flags) instr) = more @ startup_lines env allowed"
    by blast
  with run have "fst (runCmd env flags args) = (pre @ more) @ startup_lines env allowed"
    by simp
  with key show "\<exists>pre allowed. IdEnc_decode env (Some (rpcAllowedPublicKey args)) = Inr allowed \<and>
        fst (runCmd env flags args) = pre @
          [LoggerInfo (''DB version: '' @ show_nat (view_core_length env)),
           LoggerInfo (''Autobase key: '' @ IdEnc_normalize env (base_key env)),
           LoggerInfo (''Name-service database key: '' @ IdEnc_normalize env (service_dbKey env)),
           LoggerInfo (''RPC server public key: '' @ IdEnc_normalize env (serverPublicKey env)),
           LoggerInfo (''Accepting RPC connections from public key '' @ IdEnc_normalize env allowed)]"
    unfolding startup_lines_def by blast
qed

theorem startup_prints_keys_and_version_witness:
  "snd (runCmd sample_run_env plain_run_flags sample_run_args) = Returned \<and>
   (\<exists>pre. fst (runCmd sample_run_env plain_run_flags sample_run_args) = pre @
      [LoggerInfo ''DB version: 7'',
       LoggerInfo (''Autobase key: '' @ key_of CHR ''c''),
       LoggerInfo (''Name-service database key: '' @ key_of CHR ''e''),
       LoggerInfo (''RPC server public key: '' @ key_of CHR ''f''),
       LoggerInfo (''Accepting RPC connections from public key '' @ key_of CHR ''s'')])"
proof -
  have ok: "snd (runCmd sample_run_env plain_run_flags sample_run_args) = Returned"
    by (simp add: sample_run_defs)
  have key: "IdEnc_decode sample_run_env (Some (rpcAllowedPublicKey sample_run_args)) = Inr (key_of CHR ''s'')"
    by (simp add: sample_run_env_def sample_run_args_def sample_decode_def key_of_def)
  from startup_prints_keys_and_version [of sample_run_env plain_run_flags sample_run_args] ok key
  have "\<exists>pre. fst (runCmd sample_run_env plain_run_flags sample_run_args) = pre @
      [LoggerInfo (''DB version: '' @ show_nat (view_core_length sample_run_env)),
       LoggerInfo (''Autobase key: '' @ key_of CHR ''c''),
       LoggerInfo (''Name-service database key: '' @ key_of CHR ''e''),
       LoggerInfo (''RPC server public key: '' @ key_of CHR ''f''),
       LoggerInfo (''Accepting RPC connections from public key '' @ key_of CHR ''s'')]"
    by (simp add: sample_run_env_def)
  moreover have "show_nat (view_core_length sample_run_env) = ''7''"
    by (simp add: sample_run_env_def show_nat.simps digit_def)
  ultimately show ?thesis using ok by simp
qed

subsection \<open>The alias of the instrumentation\<close>

lemma default_alias:
  "\<not> truthy v \<Longrightarrow> prometheusAlias_of v n = Inr (take 99 (''autodiscovery-'' @ n))"
  by (cases v) (simp_all add: prometheusAlias_of_def)

lemma alias_short:
  "prometheusAlias_of v n = Inr a \<Longrightarrow> length a \<le> 99"
  by (auto simp: prometheusAlias_of_def split: option.splits if_splits)

lemma alias_long:
  "truthy v \<Longrightarrow> v = Some a \<Longrightarrow> 99 < length a \<Longrightarrow>
   prometheusAlias_of v n = Inl ''The Prometheus alias must have length less than 100''"
  by (simp add: prometheusAlias_of_def)

lemma long_is_truthy: "99 < length a \<Longrightarrow> truthy (Some a)"
  by (auto simp: truthy_def)

lemma instrument_long_alias:
  assumes "truthy (scraperPublicKey flags)" "scraperAlias flags = Some a" "99 < length a"
  shows "\<exists>m. instrument env flags kp k = ([LoggerInfo ''Setting up instrumentation''], Threw m) \<and>
     ((\<exists>x. IdEnc_decode env (scraperPublicKey flags) = Inr x) \<and>
      (\<exists>y. IdEnc_decode env (scraperSecret flags) = Inr y)
        \<longrightarrow> m = ''The Prometheus alias must have length less than 100'')"
proof -
  from assms have bad: "prometheusAlias_of (scraperAlias flags) (IdEnc_normalize env kp)
      = Inl ''The Prometheus alias must have length less than 100''"
    by (simp add: alias_long long_is_truthy)
  show ?thesis
  proof (cases "IdEnc_decode env (scraperPublicKey flags)")
    case (Inl m)
    with assms(1) show ?thesis by (simp add: instrument_def emit_def finish_def)
  next
    case pk: (Inr x)
    show ?thesis
    proof (cases "IdEnc_decode env (scraperSecret flags)")
      case (Inl m)
      with assms(1) pk show ?thesis by (simp add: instrument_def emit_def finish_def)
    next
      case (Inr y)
      with assms(1) pk bad show ?thesis by (simp add: instrument_def emit_def finish_def)
    qed
  qed
qed

lemma start_service_no_instrumentation:
  "NewInstrumentation opts \<notin> set (fst (start_service env allowed config instr))"
  by (cases instr; cases "instrumentation_ready env"; cases "service_ready env")
     (simp_all add: start_service_def)

lemma instrument_opts:
  assumes "NewInstrumentation opts \<in> set (fst (instrument env flags kp k))"
    and "\<And>b. NewInstrumentation opts \<notin> set (fst (k b))"
  shows "prometheusAlias_of (scraperAlias flags) (IdEnc_normalize env kp) = Inr (opt_prometheusAlias opts)"
proof (cases "truthy (scraperPublicKey flags)")
  case False
  with assms show ?thesis by (simp add: instrument_def)
next
  case scraper: True
  show ?thesis
  proof (cases "IdEnc_decode env (scraperPublicKey flags)")
    case (Inl m)
    with scraper assms show ?thesis by (simp add: instrument_def)
  next
    case pk: (Inr x)
    show ?thesis
    proof (cases "IdEnc_decode env (scraperSecret flags)")
      case (Inl m)
      with scraper pk assms show ?thesis by (simp add: instrument_def)
    next
      case secret: (Inr y)
      show ?thesis
      proof (cases "prometheusAlias_of (scraperAlias flags) (IdEnc_normalize env kp)")
        case (Inl m)
        with scraper pk secret assms show ?thesis by (simp add: instrument_def)
      next
        case (Inr name)
        with scraper pk secret assms show ?thesis by (auto simp: instrument_def)
      qed
    qed
  qed
qed

lemma runCmd_instrumentation:
  assumes "NewInstrumentation opts \<in> set (fst (runCmd env flags args))"
  shows "\<exists>kp. store_createKeyPair env = Resolved kp \<and>
    prometheusAlias_of (scraperAlias flags) (IdEnc_normalize env kp) = Inr (opt_prometheusAlias opts)"
proof (cases "IdEnc_decode env (Some (rpcAllowedPublicKey args))")
  case (Inl m)
  with assms show ?thesis by (simp add: runCmd_def)
next
  case (Inr allowed)
  from runCmd_stages [OF Inr] obtain pre boot where
    clean: "\<forall>opts. NewInstrumentation opts \<notin> set pre"
    and run: "runCmd env flags args = emits pre (
      await StoreReady (store_ready env) (\<lambda>_.
      await (CreateKeyPair ''public-key'') (store_createKeyPair env) (\<lambda>keyPair.
      emits [NewHyperswarmWith keyPair boot, OnConnectionLog] (
      instrument env flags keyPair (start_service env allowed (run_config env flags))))))"
    by blast
  show ?thesis
  proof (cases "store_ready env")
    case (Resolved u)
    show ?thesis
    proof (cases "store_createKeyPair env")
      case kp: (Resolved kp)
      from assms run clean Resolved kp
      have "NewInstrumentation opts \<in> set (fst (instrument env flags kp (start_service env allowed (run_config env flags))))"
        by simp
      then have "prometheusAlias_of (scraperAlias flags) (IdEnc_normalize env kp) = Inr (opt_prometheusAlias opts)"
        by (rule instrument_opts) (rule start_service_no_instrumentation)
      with kp show ?thesis by simp
    next
      case (Rejected m)
      with assms run clean Resolved show ?thesis by simp
    next
      case Pending
      with assms run clean Resolved show ?thesis by simp
    qed
  next
    case (Rejected m)
    with assms run clean show ?thesis by simp
  next
    case Pending
    with assms run clean show ?thesis by simp
  qed
qed

lemma runCmd_long_alias_setup:
  assumes "truthy (scraperPublicKey flags)" "scraperAlias flags = Some a" "99 < length a"
  shows "list_all is_setup (fst (runCmd env flags args)) \<and> snd (runCmd env flags args) \<noteq> Returned"
proof -
  consider (on) pre allowed kp where
      "runCmd env flags args =
         emits pre (instrument env flags kp (start_service env allowed (run_config env flags)))"
      "list_all is_setup pre"
    | (off) pre out where "runCmd env flags args = (pre, out)" "out \<noteq> Returned" "list_all is_setup pre"
    using runCmd_shape [of env flags args] by blast
  then show ?thesis
  proof cases
    case on
    from instrument_long_alias [OF assms, of env kp "start_service env allowed (run_config env flags)"]
    obtain m where "instrument env flags kp (start_service env allowed (run_config env flags))
      = ([LoggerInfo ''Setting up instrumentation''], Threw m)" by blast
    with on show ?thesis by (simp add: is_setup_def)
  next
    case off
    then show ?thesis by simp
  qed
qed

lemma runCmd_long_alias_throws:
  assumes "truthy (scraperPublicKey flags)" "scraperAlias flags = Some a" "99 < length a"
    and "IdEnc_decode env (Some (rpcAllowedPublicKey args)) = Inr allowed"
    and "store_ready env = Resolved ()" "store_createKeyPair env = Resolved kp"
  shows "\<exists>m. snd (runCmd env flags args) = Threw m \<and>
     ((\<exists>x. IdEnc_decode env (scraperPublicKey flags) = Inr x) \<and>
      (\<exists>y. IdEnc_decode env (scraperSecret flags) = Inr y)
        \<longrightarrow> m = ''The Prometheus alias must have length less than 100'')"
proof -
  from runCmd_stages [OF assms(4)] obtain pre boot where
    run: "runCmd env flags args = emits pre (
      await StoreReady (store_ready env) (\<lambda>_.
      await (CreateKeyPair ''public-key'') (store_createKeyPair env) (\<lambda>keyPair.
      emits [NewHyperswarmWith keyPair boot, OnConnectionLog] (
      instrument env flags keyPair (start_service env allowed (run_config env flags))))))"
    by blast
  from instrument_long_alias [OF assms(1-3), of env kp "start_service env allowed (run_config env flags)"]
  obtain m where m: "instrument env flags kp (start_service env allowed (run_config env flags))
      = ([LoggerInfo ''Setting up instrumentation''], Threw m)"
     "(\<exists>x. IdEnc_decode env (scraperPublicKey flags) = Inr x) \<and>
      (\<exists>y. IdEnc_decode env (scraperSecret flags) = Inr y)
        \<longrightarrow> m = ''The Prometheus alias must have length less than 100''"
    by blast
  from run assms(5,6) m(1) have "snd (runCmd env flags args) = Threw m" by simp
  with m(2) show ?thesis by blast
qed

lemma setup_before_service:
  "list_all is_setup es \<Longrightarrow> NewAutodiscovery ns k \<notin> set es \<and> ServiceReady \<notin> set es"
  by (induction es) (auto simp: is_setup_def)

text \<open>
  Claim C10.  With a scraper configured (\<open>--scraper-public-key\<close>) and a
  \<open>--scraper-alias\<close> of more than 99 characters, \<open>run\<close> never constructs or starts the
  service and never completes; when it gets as far as the instrumentation (the allowed key
  decodes, the store is ready and yields its key pair) an exception escapes, and it is the
  alias error when the scraper's keys decode.  With no alias (absent or empty) the alias
  is the first 99 characters of \<open>autodiscovery-\<close> followed by the swarm's public key, the
  length check is not taken, and every instrumentation that \<open>run\<close> constructs has an alias
  of at most 99 characters.
\<close>

theorem scraper_alias_length:
  "(truthy (scraperPublicKey flags) \<and> scraperAlias flags = Some a \<and> 99 < length a \<longrightarrow>
      (\<forall>ns k. NewAutodiscovery ns k \<notin> set (fst (runCmd env flags args))) \<and>
      ServiceReady \<notin> set (fst (runCmd env flags args)) \<and>
      snd (runCmd env flags args) \<noteq> Returned \<and>
      (IdEnc_decode env (Some (rpcAllowedPublicKey args)) = Inr allowed \<and>
       store_ready env = Resolved () \<and> store_createKeyPair env = Resolved kp \<longrightarrow>
         (\<exists>m. snd (runCmd env flags args) = Threw m) \<and>
         (IdEnc_decode env (scraperPublicKey flags) = Inr x \<and>
          IdEnc_decode env (scraperSecret flags) = Inr y \<longrightarrow>
            snd (runCmd env flags args) =
              Threw ''The Prometheus alias must have length less than 100''))) \<and>
   (\<not> truthy (scraperAlias flags) \<longrightarrow>
      prometheusAlias_of (scraperAlias flags) n = Inr (take 99 (''autodiscovery-'' @ n)) \<and>
      length (take 99 (''autodiscovery-'' @ n)) \<le> 99) \<and>
   (NewInstrumentation opts \<in> set (fst (runCmd env flags args)) \<longrightarrow>
      length (opt_prometheusAlias opts) \<le> 99 \<and>
      (\<not> truthy (scraperAlias flags) \<longrightarrow>
         (\<exists>pk. store_createKeyPair env = Resolved pk \<and>
            opt_prometheusAlias opts = take 99 (''autodiscovery-'' @ IdEnc_normalize env pk))))"
proof (intro conjI impI allI; (elim conjE)?)
  assume long: "truthy (scraperPublicKey flags)" "scraperAlias flags = Some a" "99 < length a"
  note early = runCmd_long_alias_setup [OF long, of env args]
  then show "NewAutodiscovery ns k \<notin> set (fst (runCmd env flags args))" for ns k
    using setup_before_service by blast
  from early show "ServiceReady \<notin> set (fst (runCmd env flags args))"
    using setup_before_service by blast
  from early show "snd (runCmd env flags args) \<noteq> Returned" by blast
  {
    assume reach: "IdEnc_decode env (Some (rpcAllowedPublicKey args)) = Inr allowed"
      "store_ready env = Resolved ()" "store_createKeyPair env = Resolved kp"
    note thrown = runCmd_long_alias_throws [OF long reach]
    then show "\<exists>m. snd (runCmd env flags args) = Threw m" by blast
    assume "IdEnc_decode env (scraperPublicKey flags) = Inr x"
      "IdEnc_decode env (scraperSecret flags) = Inr y"
    with thrown show "snd (runCmd env flags args) =
        Threw ''The Prometheus alias must have length less than 100''"
      by auto
  }
next
  assume "\<not> truthy (scraperAlias flags)"
  then show "prometheusAlias_of (scraperAlias flags) n = Inr (take 99 (''autodiscovery-'' @ n))"
    by (rule default_alias)
next
  show "length (take 99 (''autodiscovery-'' @ n)) \<le> 99" by simp
next
  assume made: "NewInstrumentation opts \<in> set (fst (runCmd env flags args))"
  from runCmd_instrumentation [OF made] obtain pk where
    pk: "store_createKeyPair env = Resolved pk"
    "prometheusAlias_of (scraperAlias flags) (IdEnc_normalize env pk) = Inr (opt_prometheusAlias opts)"
    by blast
  from pk(2) show "length (opt_prometheusAlias opts) \<le> 99" by (rule alias_short)
  assume "\<not> truthy (scraperAlias flags)"
  with pk(2) have "opt_prometheusAlias opts = take 99 (''autodiscovery-'' @ IdEnc_normalize env pk)"
    by (simp add: default_alias)
  with pk(1) show "\<exists>pk. store_createKeyPair env = Resolved pk \<and>
            opt_prometheusAlias opts = take 99 (''autodiscovery-'' @ IdEnc_normalize env pk)"
    by blast
qed

theorem scraper_alias_length_witness:
  "snd (runCmd sample_run_env (scraper_run_flags (Some (replicate 100 CHR ''x''))) sample_run_args)
     = Threw ''The Prometheus alias must have length less than 100'' \<and>
   NewInstrumentation
     \<lparr>opt_scraperPublicKey = key_of CHR ''m'',
      opt_prometheusAlias = ''autodiscovery-'' @ key_of CHR ''k'',
      opt_scraperSecret = key_of CHR ''n'', opt_prometheusServiceName = ''autodiscovery'',
      opt_version = ''1.0.0''\<rparr>
     \<in> set (fst (runCmd sample_run_env (scraper_run_flags None) sample_run_args)) \<and>
   length (''autodiscovery-'' @ key_of CHR ''k'') \<le> 99"
proof -
  let ?long = "scraper_run_flags (Some (replicate 100 CHR ''x''))"
  let ?opts = "\<lparr>opt_scraperPublicKey = key_of CHR ''m'',
      opt_prometheusAlias = ''autodiscovery-'' @ key_of CHR ''k'',
      opt_scraperSecret = key_of CHR ''n'', opt_prometheusServiceName = ''autodiscovery'',
      opt_version = ''1.0.0''\<rparr>"
  have long: "truthy (scraperPublicKey ?long)" "scraperAlias ?long = Some (replicate 100 CHR ''x'')"
    "99 < length (replicate 100 CHR ''x'')"
    by (simp_all add: scraper_run_flags_def plain_run_flags_def truthy_def key_of_def)
  have reach: "IdEnc_decode sample_run_env (Some (rpcAllowedPublicKey sample_run_args)) = Inr (key_of CHR ''s'')"
    "store_ready sample_run_env = Resolved ()"
    "store_createKeyPair sample_run_env = Resolved (key_of CHR ''k'')"
    "IdEnc_decode sample_run_env (scraperPublicKey ?long) = Inr (key_of CHR ''m'')"
    "IdEnc_decode sample_run_env (scraperSecret ?long) = Inr (key_of CHR ''n'')"
    by (simp_all add: sample_run_env_def sample_run_args_def sample_decode_def key_of_def
        scraper_run_flags_def plain_run_flags_def)
  from scraper_alias_length [of ?long "replicate 100 CHR ''x''" sample_run_env sample_run_args
      "key_of CHR ''s''" "key_of CHR ''k''" "key_of CHR ''m''" "key_of CHR ''n''"] long reach
  have thrown: "snd (runCmd sample_run_env ?long sample_run_args)
     = Threw ''The Prometheus alias must have length less than 100''"
    by blast
  have made: "NewInstrumentation ?opts
     \<in> set (fst (runCmd sample_run_env (scraper_run_flags None) sample_run_args))"
    by (simp add: sample_run_defs scraper_run_flags_def)
  from scraper_alias_length [of "scraper_run_flags None" _ sample_run_env sample_run_args
      _ _ _ _ _ ?opts] made
  have "length (opt_prometheusAlias ?opts) \<le> 99" by blast
  with thrown made show ?thesis by simp
qed

end
